theory Spec2Isabelle
  imports Complex_Main "HOL-Library.AList" "HOL-Library.Log_Nat"
begin

section \<open>Numbers of the tables\<close>

subsection \<open>float64\<close>

text \<open>
  A numeric cell of a float column is a float64.  A finite float64 is written as the
  rational number it stands for; the values that are floats are the rationals that
  \<open>round64\<close> below leaves as they are.  There is one zero: the sign of a zero is not kept.
  The three special values are kept, because the division of \<open>normalize_column\<close> can produce
  them: \<open>0 / 0\<close> is \<open>NaN\<close> and \<open>x / 0\<close> is an infinity; pandas raises nothing there.
\<close>

datatype flt = Fin rat | PInf | NInf | NaN

text \<open>
  Rounding to the nearest float64, ties to the even mantissa.  \<open>lg2 r\<close> is the exponent of a
  positive \<open>r\<close>, the \<open>e\<close> with \<open>2\<^sup>e \<le> r < 2\<^sup>e\<^sup>+\<^sup>1\<close>.  The floats near \<open>r\<close> are the multiples of
  the quantum \<open>2\<^sup>e\<^sup>-\<^sup>5\<^sup>2\<close>, where the exponent is not taken below \<open>-1022\<close> (below it the
  floats are the subnormal ones, which all are multiples of \<open>2\<^sup>-\<^sup>1\<^sup>0\<^sup>7\<^sup>4\<close>).  A result above
  the largest float is an infinity.
\<close>

definition lg2 :: "rat \<Rightarrow> int" where
  "lg2 r = (if 1 \<le> r then bitlen \<lfloor>r\<rfloor> - 1 else - bitlen (\<lceil>1 / r\<rceil> - 1))"

definition round_half_even :: "rat \<Rightarrow> int" where
  "round_half_even x =
     (let n = \<lfloor>x\<rfloor>; f = x - of_int n
      in if f < 1 / 2 then n else if 1 / 2 < f then n + 1 else if even n then n else n + 1)"

definition quantum :: "rat \<Rightarrow> rat" where
  "quantum r = power_int 2 (max (lg2 r) (- 1022) - 52)"

definition round_mag :: "rat \<Rightarrow> rat" where
  "round_mag r = (if r = 0 then 0 else of_int (round_half_even (r / quantum r)) * quantum r)"

definition f64_max :: rat where
  "f64_max = (2 ^ 53 - 1) * 2 ^ 971"

definition round64 :: "rat \<Rightarrow> flt" where
  "round64 r =
     (if f64_max < round_mag \<bar>r\<bar> then (if 0 < r then PInf else NInf)
      else Fin (sgn r * round_mag \<bar>r\<bar>))"

definition is_f64 :: "rat \<Rightarrow> bool" where
  "is_f64 r \<longleftrightarrow> round64 r = Fin r"

text \<open>
  The four operations, as IEEE 754 has them: the exact result, rounded.  A finite number
  over zero is an infinity of the sign of the numerator (the zero divisors met here are
  differences \<open>x - x\<close>, which are \<open>+0\<close>); zero over zero and infinity over infinity are \<open>NaN\<close>.
\<close>

definition inf_of_sign :: "rat \<Rightarrow> flt" where
  "inf_of_sign s = (if s = 0 then NaN else if 0 < s then PInf else NInf)"

fun fsign :: "flt \<Rightarrow> rat" where
  "fsign (Fin a) = sgn a"
| "fsign PInf = 1"
| "fsign NInf = - 1"
| "fsign NaN = 0"

fun fsub :: "flt \<Rightarrow> flt \<Rightarrow> flt" where
  "fsub NaN _ = NaN"
| "fsub _ NaN = NaN"
| "fsub (Fin a) (Fin b) = round64 (a - b)"
| "fsub (Fin _) PInf = NInf"
| "fsub (Fin _) NInf = PInf"
| "fsub PInf PInf = NaN"
| "fsub PInf _ = PInf"
| "fsub NInf NInf = NaN"
| "fsub NInf _ = NInf"

fun fadd :: "flt \<Rightarrow> flt \<Rightarrow> flt" where
  "fadd NaN _ = NaN"
| "fadd _ NaN = NaN"
| "fadd (Fin a) (Fin b) = round64 (a + b)"
| "fadd (Fin _) y = y"
| "fadd PInf NInf = NaN"
| "fadd PInf _ = PInf"
| "fadd NInf PInf = NaN"
| "fadd NInf _ = NInf"

fun fmul :: "flt \<Rightarrow> flt \<Rightarrow> flt" where
  "fmul NaN _ = NaN"
| "fmul _ NaN = NaN"
| "fmul (Fin a) (Fin b) = round64 (a * b)"
| "fmul x y = inf_of_sign (fsign x * fsign y)"

fun fdiv :: "flt \<Rightarrow> flt \<Rightarrow> flt" where
  "fdiv NaN _ = NaN"
| "fdiv _ NaN = NaN"
| "fdiv (Fin a) (Fin b) = (if b = 0 then inf_of_sign a else round64 (a / b))"
| "fdiv (Fin _) _ = Fin 0"
| "fdiv x (Fin b) = (if b = 0 then x else inf_of_sign (fsign x * sgn b))"
| "fdiv _ _ = NaN"

fun fle :: "flt \<Rightarrow> flt \<Rightarrow> bool" where
  "fle NaN _ = False"
| "fle _ NaN = False"
| "fle NInf _ = True"
| "fle _ PInf = True"
| "fle (Fin a) (Fin b) = (a \<le> b)"
| "fle _ _ = False"

definition fmin :: "flt \<Rightarrow> flt \<Rightarrow> flt" where
  "fmin x y = (if fle x y then x else y)"

definition fmax :: "flt \<Rightarrow> flt \<Rightarrow> flt" where
  "fmax x y = (if fle x y then y else x)"

text \<open>
  \<open>Series.min()\<close> and \<open>Series.max()\<close> skip the missing values (\<open>skipna\<close> is on by default)
  and are \<open>NaN\<close> on a series with no value left.
\<close>

definition series_min :: "flt list \<Rightarrow> flt" where
  "series_min xs = (case filter (\<lambda>x. x \<noteq> NaN) xs of [] \<Rightarrow> NaN | y # ys \<Rightarrow> fold fmin ys y)"

definition series_max :: "flt list \<Rightarrow> flt" where
  "series_max xs = (case filter (\<lambda>x. x \<noteq> NaN) xs of [] \<Rightarrow> NaN | y # ys \<Rightarrow> fold fmax ys y)"

text \<open>
  The arithmetic of \<open>normalize_column\<close> on a float series:
  \<open>(series - series.min()) / (series.max() - series.min())\<close>, element by element, each
  subtraction and the division rounded.
\<close>

definition normalize_values :: "flt list \<Rightarrow> flt list" where
  "normalize_values series =
     map (\<lambda>v. fdiv (fsub v (series_min series)) (fsub (series_max series) (series_min series)))
       series"

subsection \<open>int64\<close>

text \<open>
  A cell of an integer column is an int64, a number from \<open>-2\<^sup>6\<^sup>3\<close> to \<open>2\<^sup>6\<^sup>3 - 1\<close>.  A sum, a
  difference or a product that leaves this range wraps around; nothing is raised.  An
  int64 that is divided is first turned into the nearest float64.
\<close>

definition wrap64 :: "int \<Rightarrow> int" where
  "wrap64 x = (x + 2 ^ 63) mod 2 ^ 64 - 2 ^ 63"

definition float_of_int64 :: "int \<Rightarrow> flt" where
  "float_of_int64 n = round64 (of_int n)"

text \<open>
  \<open>normalize_column\<close> on an integer series: the two subtractions are int64 subtractions, the
  division is the float64 division of the converted operands.  The minimum of a series
  with no row is \<open>NaN\<close>, and the result has no row.
\<close>

definition normalize_ints :: "int list \<Rightarrow> flt list" where
  "normalize_ints series =
     (if series = [] then []
      else map (\<lambda>v. fdiv (float_of_int64 (wrap64 (v - Min (set series))))
                        (float_of_int64 (wrap64 (Max (set series) - Min (set series)))))
             series)"

section \<open>Tables\<close>

text \<open>
  A column of a DataFrame is a typed series: integers (int64), floats (float64) or text
  (an object column of \<open>str\<close>).  Text is a list of 8-bit characters, so the model covers ASCII
  text; missing text entries and columns of mixed objects are not modelled.  A DataFrame is
  the list of its named columns in their order; all columns of a table have the same number
  of rows.
\<close>

datatype column = IntCol "int list" | FloatCol "flt list" | StrCol "string list"

type_synonym dataframe = "(string \<times> column) list"

text \<open>
  The exceptions that can leave the functions of \<open>geo_plot\<close>:
  \<^item> \<open>ValueError msg\<close>: raised by the builders' own column check, with its message;
  \<^item> \<open>KeyError c\<close>: raised by pandas when \<open>df[c]\<close> names no column;
  \<^item> \<open>CastError\<close>: the \<open>ValueError\<close> of \<open>astype(int)\<close> on a non-finite number or on text
    that is no integer literal;
  \<^item> \<open>OverflowError\<close>: raised by \<open>astype(int)\<close> on text whose integer does not fit an int64;
  \<^item> \<open>TypeError\<close>: arithmetic on text;
  \<^item> \<open>AttributeError\<close>: the \<open>.str\<close> accessor on a column that is not text;
  \<^item> \<open>InvalidProperty\<close>: the \<open>ValueError\<close> of plotly's validation of a trace property.
\<close>

datatype error =
  ValueError string | KeyError string | CastError | OverflowError | TypeError | AttributeError
  | InvalidProperty

definition columns :: "dataframe \<Rightarrow> string list" where
  "columns df = map fst df"

text \<open>\<open>df[c]\<close>: the column named \<open>c\<close>, or \<open>KeyError\<close>.\<close>

definition getitem :: "dataframe \<Rightarrow> string \<Rightarrow> error + column" where
  "getitem df c = (case map_of df c of None \<Rightarrow> Inl (KeyError c) | Some col \<Rightarrow> Inr col)"

text \<open>\<open>df[c] = col\<close>: replaces the column named \<open>c\<close> where it stands, or adds it last.\<close>

definition setitem :: "dataframe \<Rightarrow> string \<Rightarrow> column \<Rightarrow> dataframe" where
  "setitem df c col = AList.update c col df"

subsection \<open>Text\<close>

definition digit_char :: "nat \<Rightarrow> char" where
  "digit_char d = ''0123456789'' ! d"

fun str_nat :: "nat \<Rightarrow> string" where
  "str_nat n = (if n < 10 then [digit_char n] else str_nat (n div 10) @ [digit_char (n mod 10)])"

declare str_nat.simps [simp del]

definition str_int :: "int \<Rightarrow> string" where
  "str_int i = (if i < 0 then CHR ''-'' # str_nat (nat (- i)) else str_nat (nat i))"

text \<open>
  \<open>str\<close> of a float.  The text Python prints for a finite float is the shortest decimal that
  reads back as the same float64, which exact rationals cannot say; it is the parameter
  \<open>repr\<close> of every function that prints floats.
\<close>

fun str_flt :: "(rat \<Rightarrow> string) \<Rightarrow> flt \<Rightarrow> string" where
  "str_flt repr (Fin r) = repr r"
| "str_flt repr PInf = ''inf''"
| "str_flt repr NInf = ''-inf''"
| "str_flt repr NaN = ''nan''"

text \<open>\<open>series.astype(str)\<close>.\<close>

fun astype_str :: "(rat \<Rightarrow> string) \<Rightarrow> column \<Rightarrow> string list" where
  "astype_str repr (IntCol xs) = map str_int xs"
| "astype_str repr (FloatCol xs) = map (str_flt repr) xs"
| "astype_str repr (StrCol xs) = xs"

text \<open>
  The whitespace of \<open>str.strip()\<close>, among the ASCII characters: tab, line feed, vertical
  tab, form feed, carriage return, the four separators and the space.
\<close>

definition is_space :: "char \<Rightarrow> bool" where
  "is_space c = (of_char c \<in> {9, 10, 11, 12, 13, 28, 29, 30, 31, 32 :: nat})"

definition strip :: "string \<Rightarrow> string" where
  "strip s = rev (dropWhile is_space (rev (dropWhile is_space s)))"

definition is_digit :: "char \<Rightarrow> bool" where
  "is_digit c = (48 \<le> (of_char c :: nat) \<and> (of_char c :: nat) \<le> 57)"

text \<open>
  The digits of an integer literal, read from the left with the value so far; one
  underscore may stand between two digits.
\<close>

fun int_digits :: "nat \<Rightarrow> string \<Rightarrow> nat option" where
  "int_digits acc [] = Some acc"
| "int_digits acc [c] = (if is_digit c then Some (acc * 10 + (of_char c - 48)) else None)"
| "int_digits acc (c # d # s) =
     (if is_digit c then
        (if d = CHR ''_'' then (if s = [] then None else int_digits (acc * 10 + (of_char c - 48)) s)
         else int_digits (acc * 10 + (of_char c - 48)) (d # s))
      else None)"

text \<open>
  \<open>int(s)\<close> in base 10: surrounding whitespace, an optional sign, digits.  On ASCII text
  \<open>int\<close> skips the whitespace of C only: the four separators are not among it.
\<close>

definition is_c_space :: "char \<Rightarrow> bool" where
  "is_c_space c = (of_char c \<in> {9, 10, 11, 12, 13, 32 :: nat})"

definition py_int :: "string \<Rightarrow> int option" where
  "py_int s =
     (case rev (dropWhile is_c_space (rev (dropWhile is_c_space s))) of
        [] \<Rightarrow> None
      | c # t \<Rightarrow>
         (if c = CHR ''-'' then (if t = [] then None else map_option (\<lambda>n. - int n) (int_digits 0 t))
          else if c = CHR ''+'' then (if t = [] then None else map_option int (int_digits 0 t))
          else map_option int (int_digits 0 (c # t))))"

text \<open>
  \<open>series.astype(int)\<close>, to int64.  pandas raises on a float column that holds a non-finite
  value; otherwise each float is cut towards zero, and a float whose integer does not fit
  an int64 becomes \<open>-2\<^sup>6\<^sup>3\<close> (what the conversion instruction of x86-64 gives; nothing is
  raised).  Text is read by \<open>int\<close>, row by row: the first text that is no literal raises
  \<open>ValueError\<close>, the first literal that does not fit an int64 raises \<open>OverflowError\<close>.
\<close>

definition in_int64 :: "int \<Rightarrow> bool" where
  "in_int64 n \<longleftrightarrow> - (2 ^ 63) \<le> n \<and> n < 2 ^ 63"

fun trunc_flt :: "flt \<Rightarrow> int option" where
  "trunc_flt (Fin r) =
     (let t = (if 0 \<le> r then \<lfloor>r\<rfloor> else \<lceil>r\<rceil>) in Some (if in_int64 t then t else - (2 ^ 63)))"
| "trunc_flt _ = None"

fun those_list :: "'a option list \<Rightarrow> 'a list option" where
  "those_list [] = Some []"
| "those_list (None # _) = None"
| "those_list (Some x # xs) = map_option (Cons x) (those_list xs)"

fun ints_of_text :: "string list \<Rightarrow> error + int list" where
  "ints_of_text [] = Inr []"
| "ints_of_text (s # ss) =
     (case py_int s of
        None \<Rightarrow> Inl CastError
      | Some n \<Rightarrow>
         (if in_int64 n
          then (case ints_of_text ss of Inl e \<Rightarrow> Inl e | Inr ns \<Rightarrow> Inr (n # ns))
          else Inl OverflowError))"

fun astype_int :: "column \<Rightarrow> error + int list" where
  "astype_int (IntCol xs) = Inr xs"
| "astype_int (FloatCol xs) =
     (case those_list (map trunc_flt xs) of None \<Rightarrow> Inl CastError | Some is \<Rightarrow> Inr is)"
| "astype_int (StrCol xs) = ints_of_text xs"

text \<open>
  \<open>series.str.replace(pat, '', case=False)\<close> for a pattern without regular-expression
  operators: every occurrence of the pattern, in any mix of cases, is removed, from the
  left and without overlap.
\<close>

definition lower :: "char \<Rightarrow> char" where
  "lower c = (if 65 \<le> (of_char c :: nat) \<and> (of_char c :: nat) \<le> 90 then char_of (of_char c + 32 :: nat) else c)"

definition starts_with_ci :: "string \<Rightarrow> string \<Rightarrow> bool" where
  "starts_with_ci pat s = (map lower pat = map lower (take (length pat) s))"

fun remove_ci :: "string \<Rightarrow> string \<Rightarrow> string" where
  "remove_ci pat [] = []"
| "remove_ci pat (c # s) =
     (if pat \<noteq> [] \<and> starts_with_ci pat (c # s) then remove_ci pat (drop (length pat - 1) s)
      else c # remove_ci pat s)"

text \<open>The \<open>.str\<close> accessor: only a text column has it.\<close>

fun str_accessor :: "column \<Rightarrow> error + string list" where
  "str_accessor (StrCol xs) = Inr xs"
| "str_accessor _ = Inl AttributeError"

subsection \<open>The Visual Encoder\<close>

text \<open>
  \<open>normalize_column\<close> of \<open>cust_func\<close>, and the local function of the same name and body in
  \<open>plotting_houses\<close>.  There is no test of the range: on a constant column the divisor is
  zero.  The result of a numeric column is a float column.  Text cannot be subtracted; a
  text column with no row has nothing to subtract.
\<close>

fun normalize_column :: "column \<Rightarrow> error + column" where
  "normalize_column (FloatCol xs) = Inr (FloatCol (normalize_values xs))"
| "normalize_column (IntCol xs) = Inr (FloatCol (normalize_ints xs))"
| "normalize_column (StrCol xs) = (if xs = [] then Inr (StrCol []) else Inl TypeError)"


section \<open>The Canvas\<close>

text \<open>
  A plotly figure is the tuple of its traces, in the order they were added, and one layout.
  Of the traces and of the layout, the properties are kept that \<open>geo_plot\<close> sets; a
  property it never sets stays as it was and is left out.  A GeoJSON document is carried
  as it is, by its text.
\<close>

datatype geojson = GeoJSON string

text \<open>The coordinates of a trace: a column of the table, or the one-element list \<open>[None]\<close>.\<close>

datatype points = Series column | NonePoint

datatype marker_size = SizeConst rat | SizeSeries column

record marker =
  marker_size :: marker_size
  marker_color :: string
  marker_opacity :: "rat option"
  marker_symbol :: "string option"

record scattermapbox =
  sm_lat :: points
  sm_lon :: points
  sm_mode :: string
  sm_marker :: "marker option"
  sm_line :: "(rat \<times> string) option"
  sm_text :: "column option"
  sm_hoverinfo :: "string option"
  sm_name :: string
  sm_showlegend :: bool

record choroplethmapbox =
  ch_geojson :: geojson
  ch_locations :: column
  ch_z :: column
  ch_colorscale :: string
  ch_showscale :: bool
  ch_marker_opacity :: rat
  ch_featureidkey :: string
  ch_name :: string
  ch_text :: column
  ch_hoverinfo :: string
  ch_showlegend :: bool

datatype trace = Scattermapbox scattermapbox | Choroplethmapbox choroplethmapbox

record mapbox_layer =
  ml_sourcetype :: "string option"
  ml_source :: "geojson option"
  ml_type :: "string option"
  ml_color :: "string option"
  ml_line_width :: "rat option"

record layout =
  mapbox_style :: "string option"
  mapbox_zoom :: "rat option"
  mapbox_center_lat :: "rat option"
  mapbox_center_lon :: "rat option"
  mapbox_layers :: "mapbox_layer list"
  margin_r :: "int option"
  margin_t :: "int option"
  margin_l :: "int option"
  margin_b :: "int option"
  legend_title :: "string option"
  legend_orientation :: "string option"
  legend_yanchor :: "string option"
  legend_y :: "rat option"
  legend_xanchor :: "string option"
  legend_x :: "rat option"
  width :: "int option"
  height :: "int option"

record figure =
  data :: "trace list"
  layout :: layout

text \<open>\<open>go.Figure()\<close>: no trace, nothing set in the layout.\<close>

definition empty_layout :: layout where
  "empty_layout =
     \<lparr>mapbox_style = None, mapbox_zoom = None, mapbox_center_lat = None,
      mapbox_center_lon = None, mapbox_layers = [], margin_r = None, margin_t = None,
      margin_l = None, margin_b = None, legend_title = None, legend_orientation = None,
      legend_yanchor = None, legend_y = None, legend_xanchor = None, legend_x = None,
      width = None, height = None\<rparr>"

definition Figure :: figure where
  "Figure = \<lparr>data = [], layout = empty_layout\<rparr>"

text \<open>\<open>fig.add_trace(t)\<close> puts the trace after the traces already there.\<close>

definition add_trace :: "figure \<Rightarrow> trace \<Rightarrow> figure" where
  "add_trace fig t = fig\<lparr>data := data fig @ [t]\<rparr>"

text \<open>
  \<open>fig.update_layout(mapbox_layers=[...])\<close>.  An update without \<open>overwrite\<close> is applied
  recursively.  For a property that is an array of objects, plotly takes the given list as
  it is when the layout has no element yet; otherwise it updates the elements that are
  there, the \<open>i\<close>-th one with element \<open>i mod n\<close> of the \<open>n\<close> given ones (an empty list changes
  nothing), and appends the given elements beyond the present length.  Updating an element
  sets the properties that the update gives and keeps the others.
\<close>

definition or_else :: "'a option \<Rightarrow> 'a option \<Rightarrow> 'a option" where
  "or_else new old = (case new of None \<Rightarrow> old | Some v \<Rightarrow> Some v)"

definition update_layer :: "mapbox_layer \<Rightarrow> mapbox_layer \<Rightarrow> mapbox_layer" where
  "update_layer old upd =
     \<lparr>ml_sourcetype = or_else (ml_sourcetype upd) (ml_sourcetype old),
      ml_source = or_else (ml_source upd) (ml_source old),
      ml_type = or_else (ml_type upd) (ml_type old),
      ml_color = or_else (ml_color upd) (ml_color old),
      ml_line_width = or_else (ml_line_width upd) (ml_line_width old)\<rparr>"

definition update_mapbox_layers :: "mapbox_layer list \<Rightarrow> mapbox_layer list \<Rightarrow> mapbox_layer list" where
  "update_mapbox_layers cur upd =
     (if cur = [] then upd
      else if upd = [] then cur
      else map (\<lambda>(i, l). update_layer l (upd ! (i mod length upd))) (enumerate 0 cur)
           @ drop (length cur) upd)"

section \<open>The Layer Builders\<close>

text \<open>
  A builder changes the table and the figure it is given, and returns nothing or raises.
  Its model returns the exception, if any, with the table and the figure as the call leaves
  them: what was written before an exception stays written.
\<close>

type_synonym outcome = "error option \<times> dataframe \<times> figure"

text \<open>The loop over \<open>required_columns\<close>: the first absent column raises.\<close>

fun check_required :: "dataframe \<Rightarrow> string list \<Rightarrow> error option" where
  "check_required df [] = None"
| "check_required df (col # cols) =
     (if col \<notin> set (columns df) then Some (ValueError (''Missing required column: '' @ col))
      else check_required df cols)"

definition ebind :: "error + 'a \<Rightarrow> ('a \<Rightarrow> error + 'b) \<Rightarrow> error + 'b" where
  "ebind m f = (case m of Inl e \<Rightarrow> Inl e | Inr x \<Rightarrow> f x)"

text \<open>\<open>series + k\<close> and \<open>series * k\<close> for a number \<open>k\<close>.\<close>

fun col_add :: "column \<Rightarrow> int \<Rightarrow> error + column" where
  "col_add (FloatCol xs) k = Inr (FloatCol (map (\<lambda>x. fadd x (Fin (of_int k))) xs))"
| "col_add (IntCol xs) k = Inr (IntCol (map (\<lambda>x. wrap64 (x + k)) xs))"
| "col_add (StrCol xs) k = (if xs = [] then Inr (StrCol []) else Inl TypeError)"

fun col_mul :: "column \<Rightarrow> int \<Rightarrow> error + column" where
  "col_mul (FloatCol xs) k = Inr (FloatCol (map (\<lambda>x. fmul x (Fin (of_int k))) xs))"
| "col_mul (IntCol xs) k = Inr (IntCol (map (\<lambda>x. wrap64 (x * k)) xs))"
| "col_mul (StrCol xs) k = (if xs = [] then Inr (StrCol []) else Inl TypeError)"

text \<open>
  plotly checks the \<open>size\<close> of a marker when the marker is made: an array must be numeric
  with every element at least 0, which \<open>NaN\<close> is not.
\<close>

fun valid_size :: "column \<Rightarrow> bool" where
  "valid_size (FloatCol xs) = list_all (fle (Fin 0)) xs"
| "valid_size (IntCol xs) = list_all (\<lambda>x. 0 \<le> x) xs"
| "valid_size (StrCol xs) = False"

definition Marker :: "column \<Rightarrow> string \<Rightarrow> error + marker" where
  "Marker sz col =
     (if valid_size sz
      then Inr \<lparr>marker_size = SizeSeries sz, marker_color = col, marker_opacity = None,
                marker_symbol = None\<rparr>
      else Inl InvalidProperty)"

subsection \<open>Houses\<close>

fun zip3 :: "'a list \<Rightarrow> 'b list \<Rightarrow> 'c list \<Rightarrow> ('a \<times> 'b \<times> 'c) list" where
  "zip3 xs ys zs = zip xs (zip ys zs)"

definition houses_hover_text ::
  "(rat \<Rightarrow> string) \<Rightarrow> dataframe \<Rightarrow> string \<Rightarrow> string \<Rightarrow> string \<Rightarrow> error + string list" where
  "houses_hover_text repr df price_col quality_col bedrooms_col =
     ebind (getitem df price_col) (\<lambda>price.
     ebind (astype_int price) (\<lambda>price_int.
     ebind (getitem df quality_col) (\<lambda>quality.
     ebind (getitem df bedrooms_col) (\<lambda>bedrooms.
       Inr (map (\<lambda>(p, q, b). ''Price: '' @ p @ ''$'' @ ''<br>Quality: '' @ q @ ''<br>Bedrooms: '' @ b)
             (zip3 (map str_int price_int) (astype_str repr quality) (astype_str repr bedrooms)))))))"

definition houses_trace ::
  "dataframe \<Rightarrow> string \<Rightarrow> string \<Rightarrow> string \<Rightarrow> string \<Rightarrow> error + trace" where
  "houses_trace df price_col lat_col long_col legend_entry =
     ebind (getitem df lat_col) (\<lambda>lat.
     ebind (getitem df long_col) (\<lambda>lon.
     ebind (getitem df price_col) (\<lambda>price.
     ebind (normalize_column price) (\<lambda>normalized.
     ebind (col_add normalized 1) (\<lambda>shifted.
     ebind (col_mul shifted 10) (\<lambda>sz.
     ebind (Marker sz ''blue'') (\<lambda>m.
     ebind (getitem df ''hover_text'') (\<lambda>hover.
       Inr (Scattermapbox
             \<lparr>sm_lat = Series lat, sm_lon = Series lon, sm_mode = ''markers'',
              sm_marker = Some m, sm_line = None, sm_text = Some hover,
              sm_hoverinfo = Some ''text'', sm_name = legend_entry,
              sm_showlegend = True\<rparr>)))))))))"

definition plotting_houses ::
  "(rat \<Rightarrow> string) \<Rightarrow> dataframe \<Rightarrow> figure \<Rightarrow> string \<Rightarrow> string \<Rightarrow> string \<Rightarrow> string \<Rightarrow> string \<Rightarrow> string
     \<Rightarrow> outcome" where
  "plotting_houses repr df fig price_col quality_col bedrooms_col lat_col long_col legend_entry =
     (case check_required df [price_col, quality_col, bedrooms_col, lat_col, long_col] of
        Some e \<Rightarrow> (Some e, df, fig)
      | None \<Rightarrow>
         (case houses_hover_text repr df price_col quality_col bedrooms_col of
            Inl e \<Rightarrow> (Some e, df, fig)
          | Inr hover \<Rightarrow>
             (let df' = setitem df ''hover_text'' (StrCol hover) in
              case houses_trace df' price_col lat_col long_col legend_entry of
                Inl e \<Rightarrow> (Some e, df', fig)
              | Inr t \<Rightarrow> (None, df', add_trace fig t))))"


subsection \<open>Regions\<close>

definition choropleth_hover_text ::
  "(rat \<Rightarrow> string) \<Rightarrow> dataframe \<Rightarrow> string \<Rightarrow> string \<Rightarrow> error + string list" where
  "choropleth_hover_text repr df zipcode_col house_quality_col =
     ebind (getitem df zipcode_col) (\<lambda>zipcode.
     ebind (getitem df house_quality_col) (\<lambda>quality.
       Inr (map (\<lambda>(z, q). ''Zipcode: '' @ z @ ''<br>Quality: '' @ q)
             (zip (astype_str repr zipcode) (astype_str repr quality)))))"

definition choropleth_trace ::
  "dataframe \<Rightarrow> geojson \<Rightarrow> string \<Rightarrow> string \<Rightarrow> string \<Rightarrow> error + trace" where
  "choropleth_trace df counties zipcode_col house_quality_col legend_entry =
     ebind (getitem df zipcode_col) (\<lambda>locations.
     ebind (getitem df house_quality_col) (\<lambda>z.
     ebind (getitem df ''hover_text'') (\<lambda>hover.
       Inr (Choroplethmapbox
             \<lparr>ch_geojson = counties, ch_locations = locations, ch_z = z,
              ch_colorscale = ''Hot'', ch_showscale = False, ch_marker_opacity = 4 / 10,
              ch_featureidkey = ''properties.ZCTA5CE10'', ch_name = legend_entry,
              ch_text = hover, ch_hoverinfo = ''text'', ch_showlegend = True\<rparr>))))"

definition add_choropleth_map ::
  "(rat \<Rightarrow> string) \<Rightarrow> dataframe \<Rightarrow> figure \<Rightarrow> geojson \<Rightarrow> string \<Rightarrow> string \<Rightarrow> string \<Rightarrow> outcome" where
  "add_choropleth_map repr df fig counties zipcode_col house_quality_col legend_entry =
     (case check_required df [zipcode_col, house_quality_col] of
        Some e \<Rightarrow> (Some e, df, fig)
      | None \<Rightarrow>
         (case choropleth_hover_text repr df zipcode_col house_quality_col of
            Inl e \<Rightarrow> (Some e, df, fig)
          | Inr hover \<Rightarrow>
             (let df' = setitem df ''hover_text'' (StrCol hover) in
              case choropleth_trace df' counties zipcode_col house_quality_col legend_entry of
                Inl e \<Rightarrow> (Some e, df', fig)
              | Inr t \<Rightarrow> (None, df', add_trace fig t))))"

subsection \<open>Park outlines\<close>

text \<open>
  The builder takes no table.  It adds the trace that carries the legend entry and
  registers the outlines as a layer of the map, in the layout.
\<close>

definition park_overlay :: "geojson \<Rightarrow> mapbox_layer" where
  "park_overlay parks =
     \<lparr>ml_sourcetype = Some ''geojson'', ml_source = Some parks, ml_type = Some ''line'',
      ml_color = Some ''green'', ml_line_width = Some (3 / 2)\<rparr>"

definition park_legend_trace :: "string \<Rightarrow> trace" where
  "park_legend_trace legend_entry =
     Scattermapbox
       \<lparr>sm_lat = NonePoint, sm_lon = NonePoint, sm_mode = ''lines'', sm_marker = None,
        sm_line = Some (3, ''green''), sm_text = None, sm_hoverinfo = None,
        sm_name = legend_entry, sm_showlegend = True\<rparr>"

definition add_park_outlines_layer :: "figure \<Rightarrow> geojson \<Rightarrow> string \<Rightarrow> figure" where
  "add_park_outlines_layer fig parks legend_entry =
     (let fig1 = add_trace fig (park_legend_trace legend_entry) in
      fig1\<lparr>layout := (layout fig1)
        \<lparr>mapbox_layers := update_mapbox_layers (mapbox_layers (layout fig1)) [park_overlay parks]\<rparr>\<rparr>)"

subsection \<open>Schools\<close>

text \<open>This builder has no loop over required columns: it reads the columns as it goes.\<close>

definition schools_hover_text ::
  "(rat \<Rightarrow> string) \<Rightarrow> dataframe \<Rightarrow> string \<Rightarrow> string \<Rightarrow> error + string list" where
  "schools_hover_text repr gdf_schools name_col desc_col =
     ebind (getitem gdf_schools name_col) (\<lambda>name.
     ebind (getitem gdf_schools desc_col) (\<lambda>desc.
     ebind (str_accessor desc) (\<lambda>descs.
       Inr (map (\<lambda>(n, d). n @ ''<br>'' @ strip (remove_ci ''School-'' d))
             (zip (astype_str repr name) descs)))))"

definition schools_marker :: marker where
  "schools_marker =
     \<lparr>marker_size = SizeConst 4, marker_color = ''darkred'', marker_opacity = Some (8 / 10),
      marker_symbol = Some ''circle''\<rparr>"

definition schools_trace :: "dataframe \<Rightarrow> string \<Rightarrow> string \<Rightarrow> string \<Rightarrow> error + trace" where
  "schools_trace gdf_schools lat_col lon_col legend_entry =
     ebind (getitem gdf_schools lat_col) (\<lambda>lat.
     ebind (getitem gdf_schools lon_col) (\<lambda>lon.
     ebind (getitem gdf_schools ''hover_text'') (\<lambda>hover.
       Inr (Scattermapbox
             \<lparr>sm_lat = Series lat, sm_lon = Series lon, sm_mode = ''markers'',
              sm_marker = Some schools_marker, sm_line = None, sm_text = Some hover,
              sm_hoverinfo = Some ''text'', sm_name = legend_entry,
              sm_showlegend = True\<rparr>))))"

definition add_schools_layer ::
  "(rat \<Rightarrow> string) \<Rightarrow> figure \<Rightarrow> dataframe \<Rightarrow> string \<Rightarrow> string \<Rightarrow> string \<Rightarrow> string \<Rightarrow> string \<Rightarrow> outcome" where
  "add_schools_layer repr fig gdf_schools lat_col lon_col name_col desc_col legend_entry =
     (case schools_hover_text repr gdf_schools name_col desc_col of
        Inl e \<Rightarrow> (Some e, gdf_schools, fig)
      | Inr hover \<Rightarrow>
         (let gdf' = setitem gdf_schools ''hover_text'' (StrCol hover) in
          case schools_trace gdf' lat_col lon_col legend_entry of
            Inl e \<Rightarrow> (Some e, gdf', fig)
          | Inr t \<Rightarrow> (None, gdf', add_trace fig t)))"

section \<open>The Layout Finalizer\<close>

text \<open>
  \<open>update_map_layout\<close> sets the style, the zoom and the centre of the map, the four
  margins, the legend and the size of the figure; the layers of the map are not named in
  the update and stay.
\<close>

definition update_map_layout :: "figure \<Rightarrow> rat \<Rightarrow> rat \<Rightarrow> string \<Rightarrow> figure" where
  "update_map_layout fig lat lon style =
     fig\<lparr>layout := (layout fig)
       \<lparr>mapbox_style := Some style,
        mapbox_zoom := Some 9,
        mapbox_center_lat := Some lat,
        mapbox_center_lon := Some lon,
        margin_r := Some 0, margin_t := Some 0, margin_l := Some 0, margin_b := Some 0,
        legend_title := Some ''Legend'',
        legend_orientation := Some ''v'',
        legend_yanchor := Some ''top'',
        legend_y := Some (99 / 100),
        legend_xanchor := Some ''left'',
        legend_x := Some (1 / 100),
        width := Some 1000,
        height := Some 1000\<rparr>\<rparr>"

section \<open>The Composition Orchestrator\<close>

text \<open>
  \<open>fig.show()\<close> and \<open>fig.write_image(path)\<close> act on the world outside: the model records
  them, in order, with the figure they were given.  A run of \<open>vizualize_findings\<close> is the
  exception that ended it, if any, the three tables as the run leaves them, the figure,
  and the record of what was shown and written.  After an exception nothing more is done.
\<close>

datatype io_event = Show figure | WriteImage string figure

record run =
  raised :: "error option"
  county_table :: "dataframe option"
  schools_table :: "dataframe option"
  houses_table :: "dataframe option"
  canvas :: figure
  events :: "io_event list"

definition unless_raised :: "run \<Rightarrow> (run \<Rightarrow> run) \<Rightarrow> run" where
  "unless_raised s f = (if raised s = None then f s else s)"

definition legend_houses :: string where
  "legend_houses = ''Houses <br>cheap (small) to expensive (large)''"

definition legend_choropleth :: string where
  "legend_choropleth = ''Average house quality <br>low (dark red) to high (bright yellow)''"

definition run_choropleth :: "(rat \<Rightarrow> string) \<Rightarrow> dataframe \<Rightarrow> geojson \<Rightarrow> run \<Rightarrow> run" where
  "run_choropleth repr df county s =
     (case add_choropleth_map repr df (canvas s) county ''zipcode'' ''house_quality'' legend_choropleth of
        (e, df', fig') \<Rightarrow> s\<lparr>raised := e, county_table := Some df', canvas := fig'\<rparr>)"

definition run_schools :: "(rat \<Rightarrow> string) \<Rightarrow> dataframe \<Rightarrow> run \<Rightarrow> run" where
  "run_schools repr df s =
     (case add_schools_layer repr (canvas s) df ''LAT_CEN'' ''LONG_CEN'' ''ABB_NAME'' ''FEATUREDES'' ''Schools'' of
        (e, df', fig') \<Rightarrow> s\<lparr>raised := e, schools_table := Some df', canvas := fig'\<rparr>)"

definition run_houses :: "(rat \<Rightarrow> string) \<Rightarrow> dataframe \<Rightarrow> run \<Rightarrow> run" where
  "run_houses repr df s =
     (case plotting_houses repr df (canvas s) ''price'' ''house_quality'' ''bedrooms'' ''lat'' ''long'' legend_houses of
        (e, df', fig') \<Rightarrow> s\<lparr>raised := e, houses_table := Some df', canvas := fig'\<rparr>)"

definition vizualize_findings ::
  "(rat \<Rightarrow> string) \<Rightarrow> dataframe option \<Rightarrow> dataframe option \<Rightarrow> dataframe option \<Rightarrow> geojson option
     \<Rightarrow> geojson option \<Rightarrow> string option \<Rightarrow> rat \<Rightarrow> rat \<Rightarrow> string \<Rightarrow> run" where
  "vizualize_findings repr df_houses df_schools df_county parks county save_png lat lon style =
     (let s0 = \<lparr>raised = None, county_table = df_county, schools_table = df_schools,
                houses_table = df_houses, canvas = Figure, events = []\<rparr>;
          s1 = (case (df_county, county) of
                  (Some d, Some c) \<Rightarrow> run_choropleth repr d c s0
                | _ \<Rightarrow> s0);
          s2 = (case parks of
                  Some p \<Rightarrow> unless_raised s1
                    (\<lambda>s. s\<lparr>canvas := add_park_outlines_layer (canvas s) p ''Park outlines''\<rparr>)
                | None \<Rightarrow> s1);
          s3 = (case df_schools of
                  Some d \<Rightarrow> unless_raised s2 (run_schools repr d)
                | None \<Rightarrow> s2);
          s4 = (case df_houses of
                  Some d \<Rightarrow> unless_raised s3 (run_houses repr d)
                | None \<Rightarrow> s3);
          s5 = unless_raised s4 (\<lambda>s. s\<lparr>canvas := update_map_layout (canvas s) lat lon style\<rparr>);
          s6 = unless_raised s5 (\<lambda>s. s\<lparr>events := events s @ [Show (canvas s)]\<rparr>)
      in (case save_png of
            Some path \<Rightarrow> unless_raised s6 (\<lambda>s. s\<lparr>events := events s @ [WriteImage path (canvas s)]\<rparr>)
          | None \<Rightarrow> s6))"


section \<open>Observers and example tables\<close>

text \<open>
  What a trace shows in the legend, its hover text, whether it is the trace of a region
  layer, and the sizes of its markers.
\<close>

fun trace_name :: "trace \<Rightarrow> string" where
  "trace_name (Scattermapbox sm) = sm_name sm"
| "trace_name (Choroplethmapbox ch) = ch_name ch"

fun trace_text :: "trace \<Rightarrow> column option" where
  "trace_text (Scattermapbox sm) = sm_text sm"
| "trace_text (Choroplethmapbox ch) = Some (ch_text ch)"

fun is_region_trace :: "trace \<Rightarrow> bool" where
  "is_region_trace (Scattermapbox _) = False"
| "is_region_trace (Choroplethmapbox _) = True"

fun marker_sizes :: "trace \<Rightarrow> marker_size option" where
  "marker_sizes (Scattermapbox sm) = map_option marker_size (sm_marker sm)"
| "marker_sizes (Choroplethmapbox _) = None"

text \<open>
  The text of a float without fractional part, such as \<open>3.0\<close>, for the examples (Python
  prints it so below \<open>10\<^sup>1\<^sup>6\<close>).
\<close>

definition repr_whole :: "rat \<Rightarrow> string" where
  "repr_whole r = str_int \<lfloor>r\<rfloor> @ ''.0''"

definition three_houses :: dataframe where
  "three_houses =
     [(''price'', IntCol [100, 200, 300]), (''house_quality'', IntCol [3, 4, 5]),
      (''bedrooms'', IntCol [2, 3, 4]),
      (''lat'', FloatCol [Fin (95 / 2), Fin (191 / 4), Fin 47]),
      (''long'', FloatCol [Fin (- 122), Fin (- 122), Fin (- 243 / 2)])]"

definition two_schools :: dataframe where
  "two_schools =
     [(''LAT_CEN'', FloatCol [Fin (95 / 2), Fin 47]),
      (''LONG_CEN'', FloatCol [Fin (- 122), Fin (- 243 / 2)]),
      (''ABB_NAME'', StrCol [''Adams'', ''Lowell'']),
      (''FEATUREDES'', StrCol [''School-Elementary'', ''school-High ''])]"

text \<open>The same table without its latitude column.\<close>

definition two_schools_no_lat :: dataframe where
  "two_schools_no_lat = tl two_schools"

definition two_regions :: dataframe where
  "two_regions = [(''zipcode'', IntCol [98001, 98002]), (''house_quality'', IntCol [3, 5])]"

text \<open>A figure whose layout already holds two overlays.\<close>

definition two_overlays :: figure where
  "two_overlays =
     Figure\<lparr>layout := empty_layout\<lparr>mapbox_layers :=
       [park_overlay (GeoJSON ''rivers''), park_overlay (GeoJSON ''roads'')]\<rparr>\<rparr>"

text \<open>A figure with one trace and one overlay.\<close>

definition river_figure :: figure where
  "river_figure =
     \<lparr>data = [park_legend_trace ''Rivers''],
      layout = empty_layout\<lparr>mapbox_layers := [park_overlay (GeoJSON ''rivers'')]\<rparr>\<rparr>"

text \<open>
  What the Visual Encoder computes for a value \<open>v\<close> of a column with minimum \<open>lo\<close> and
  maximum \<open>hi\<close>, when no operation overflows: \<open>(v - lo) / (hi - lo)\<close> with the two differences
  and the quotient rounded.
\<close>

definition encoded :: "rat \<Rightarrow> rat \<Rightarrow> rat \<Rightarrow> rat" where
  "encoded lo hi v = round_mag (round_mag (v - lo) / round_mag (hi - lo))"


section \<open>Properties of float64 rounding\<close>

text \<open>
  Rounding is monotone and leaves the powers of two and the largest float as they are;
  two different floats are at least the smallest positive float apart.
\<close>

lemma pow2_nonneg: "0 \<le> k \<Longrightarrow> power_int (2::rat) k = 2 ^ nat k"
  by (simp add: power_int_def)

lemma pow2_neg: "0 \<le> k \<Longrightarrow> power_int (2::rat) (- k) = 1 / 2 ^ nat k"
  by (simp add: power_int_minus pow2_nonneg field_simps)

lemma pow2_pos [simp]: "0 < power_int (2::rat) k"
  by simp

lemma pow2_Suc: "power_int (2::rat) (k + 1) = 2 * power_int 2 k"
  by (simp add: power_int_add)

lemma lg2_bracket:
  assumes "0 < r"
  shows "power_int 2 (lg2 r) \<le> r \<and> r < power_int 2 (lg2 r + 1)"
proof (cases "1 \<le> r")
  case True
  define n where "n = \<lfloor>r\<rfloor>"
  have n: "1 \<le> n" using True by (simp add: n_def le_floor_iff)
  then have b: "2 ^ nat (bitlen n - 1) \<le> n" "n < 2 ^ nat (bitlen n)"
    using bitlen_bounds [of n] by simp_all
  have k: "1 \<le> bitlen n" using n by (simp add: bitlen_alt_def)
  have lg: "lg2 r = bitlen n - 1" using True by (simp add: lg2_def n_def)
  have "rat_of_int (2 ^ nat (bitlen n - 1)) \<le> of_int n" using b(1) by (simp only: of_int_le_iff)
  also have "of_int n \<le> r" by (simp add: n_def)
  finally have lo: "power_int 2 (lg2 r) \<le> r" using k by (simp add: lg pow2_nonneg)
  have "n + 1 \<le> 2 ^ nat (bitlen n)" using b(2) by simp
  then have "rat_of_int (n + 1) \<le> of_int (2 ^ nat (bitlen n))" by (simp only: of_int_le_iff)
  moreover have "r < of_int (n + 1)" using floor_correct [of r] by (simp only: n_def)
  ultimately have "r < 2 ^ nat (bitlen n)" by simp
  then have hi: "r < power_int 2 (lg2 r + 1)" using k by (simp add: lg pow2_nonneg)
  from lo hi show ?thesis ..
next
  case False
  define m where "m = \<lceil>1 / r\<rceil>"
  define k where "k = bitlen (m - 1)"
  have inv: "1 < 1 / r" using False assms by (simp add: field_simps)
  then have m: "2 \<le> m" unfolding m_def by (simp add: le_ceiling_iff)
  then have b: "2 ^ nat (k - 1) \<le> m - 1" "m - 1 < 2 ^ nat k"
    using bitlen_bounds [of "m - 1"] by (simp_all add: k_def)
  have k: "1 \<le> k" using m by (simp add: k_def bitlen_alt_def)
  have lg: "lg2 r = - k" using False by (simp add: lg2_def m_def k_def)
  have "1 / r \<le> of_int m" by (simp add: m_def)
  also have "rat_of_int m \<le> of_int (2 ^ nat k)" using b(2) by (simp only: of_int_le_iff)
  finally have "1 / r \<le> 2 ^ nat k" by simp
  then have "1 / 2 ^ nat k \<le> r" using assms by (simp add: field_simps)
  then have lo: "power_int 2 (lg2 r) \<le> r" using k by (simp add: lg pow2_neg)
  have "rat_of_int (2 ^ nat (k - 1)) \<le> of_int (m - 1)" using b(1) by (simp only: of_int_le_iff)
  also have "rat_of_int (m - 1) < 1 / r" using ceiling_correct [of "1 / r"] by (simp add: m_def)
  finally have "2 ^ nat (k - 1) < 1 / r" by simp
  then have "r < 1 / 2 ^ nat (k - 1)" using assms by (simp add: field_simps)
  moreover have "lg2 r + 1 = - (k - 1)" by (simp add: lg)
  ultimately have hi: "r < power_int 2 (lg2 r + 1)" using k by (simp only: pow2_neg) 
  from lo hi show ?thesis ..
qed

lemma lg2_unique:
  assumes "power_int 2 k \<le> r" and "r < power_int 2 (k + 1)"
  shows "lg2 r = k"
proof -
  have r: "0 < r" using assms(1) pow2_pos [of k] by linarith
  note b = lg2_bracket [OF r]
  have "power_int (2::rat) k < power_int 2 (lg2 r + 1)" using assms(1) b by linarith
  then have 1: "k < lg2 r + 1"
    using power_int_increasing [of "lg2 r + 1" k "2::rat"] by (cases "k < lg2 r + 1") auto
  have "power_int (2::rat) (lg2 r) < power_int 2 (k + 1)" using assms(2) b by linarith
  then have 2: "lg2 r < k + 1"
    using power_int_increasing [of "k + 1" "lg2 r" "2::rat"] by (cases "lg2 r < k + 1") auto
  from 1 2 show ?thesis by simp
qed

lemma lg2_mono:
  assumes "0 < r" and "r \<le> s"
  shows "lg2 r \<le> lg2 s"
proof -
  have s: "0 < s" using assms by simp
  have "power_int (2::rat) (lg2 r) < power_int 2 (lg2 s + 1)"
    using lg2_bracket [OF assms(1)] lg2_bracket [OF s] assms(2) by linarith
  then have "lg2 r < lg2 s + 1"
    using power_int_increasing [of "lg2 s + 1" "lg2 r" "2::rat"] by (cases "lg2 r < lg2 s + 1") auto
  then show ?thesis by simp
qed

lemma round_half_even_of_int [simp]: "round_half_even (of_int n) = n"
  by (simp add: round_half_even_def)

lemma round_half_even_bounds:
  "\<lfloor>x\<rfloor> \<le> round_half_even x" "round_half_even x \<le> \<lfloor>x\<rfloor> + 1"
  by (simp_all add: round_half_even_def Let_def)

lemma round_half_even_mono:
  assumes "x \<le> y"
  shows "round_half_even x \<le> round_half_even y"
proof (cases "\<lfloor>x\<rfloor> = \<lfloor>y\<rfloor>")
  case True
  then show ?thesis using assms by (auto simp: round_half_even_def Let_def)
next
  case False
  then have "\<lfloor>x\<rfloor> + 1 \<le> \<lfloor>y\<rfloor>" using floor_mono [OF assms] by simp
  then show ?thesis
    using round_half_even_bounds(2) [of x] round_half_even_bounds(1) [of y] by linarith
qed


lemma quantum_pos [simp]: "0 < quantum r" "0 \<le> quantum r" "quantum r \<noteq> 0" "\<not> quantum r < 0"
proof -
  show "0 < quantum r" by (simp add: quantum_def)
  then show "0 \<le> quantum r" "quantum r \<noteq> 0" "\<not> quantum r < 0" by simp_all
qed

lemma quantum_eq: "quantum r = power_int 2 (max (lg2 r) (- 1022) + 1) / 2 ^ 53"
proof -
  have "power_int (2::rat) ((max (lg2 r) (- 1022) + 1) - 53) =
        power_int 2 (max (lg2 r) (- 1022) + 1) / power_int 2 53"
    by (rule power_int_diff) simp
  then show ?thesis by (simp add: quantum_def)
qed

lemma quantum_eq': "quantum r = power_int 2 (max (lg2 r) (- 1022)) / 2 ^ 52"
proof -
  have "power_int (2::rat) (max (lg2 r) (- 1022) - 52) =
        power_int 2 (max (lg2 r) (- 1022)) / power_int 2 52"
    by (rule power_int_diff) simp
  then show ?thesis by (simp add: quantum_def)
qed

lemma round_mag_zero [simp]: "round_mag 0 = 0"
  by (simp add: round_mag_def)

lemma round_mag_nonneg: "0 \<le> r \<Longrightarrow> 0 \<le> round_mag r"
proof -
  assume r: "0 \<le> r"
  have "0 \<le> r / quantum r" using r by (intro divide_nonneg_pos) simp_all
  then have "0 \<le> \<lfloor>r / quantum r\<rfloor>" by simp
  then have "0 \<le> round_half_even (r / quantum r)"
    using round_half_even_bounds(1) [of "r / quantum r"] by linarith
  then show ?thesis by (simp add: round_mag_def)
qed

text \<open>Between two powers of two the rounded value stays between them.\<close>

lemma round_mag_upper:
  assumes "0 < r"
  shows "round_mag r \<le> power_int 2 (max (lg2 r) (- 1022) + 1)"
proof -
  let ?P = "power_int (2::rat) (max (lg2 r) (- 1022) + 1)"
  have P: "0 < ?P" by simp
  have q: "quantum r = ?P / 2 ^ 53" by (rule quantum_eq)
  have "r < power_int 2 (lg2 r + 1)" using lg2_bracket [OF assms] by simp
  also have "\<dots> \<le> ?P" by (rule power_int_increasing) simp_all
  finally have "r < ?P" .
  then have "r / quantum r \<le> 2 ^ 53" using P unfolding q by (simp add: field_simps)
  then have "r / quantum r \<le> of_int (2 ^ 53)" by simp
  then have "round_half_even (r / quantum r) \<le> round_half_even (of_int (2 ^ 53))"
    by (rule round_half_even_mono)
  then have "rat_of_int (round_half_even (r / quantum r)) \<le> of_int (2 ^ 53)"
    by (simp only: round_half_even_of_int of_int_le_iff)
  then have "rat_of_int (round_half_even (r / quantum r)) * quantum r \<le> of_int (2 ^ 53) * quantum r"
    by (intro mult_right_mono) simp_all
  also have "of_int (2 ^ 53) * quantum r = ?P" unfolding q by simp
  finally show ?thesis using assms by (simp add: round_mag_def)
qed

lemma round_mag_lower:
  assumes "0 < r" and "- 1022 \<le> lg2 r"
  shows "power_int 2 (lg2 r) \<le> round_mag r"
proof -
  let ?P = "power_int (2::rat) (lg2 r)"
  have P: "0 < ?P" by simp
  have q: "quantum r = ?P / 2 ^ 52" using assms(2) quantum_eq' [of r] by (simp add: max_def)
  have "?P \<le> r" using lg2_bracket [OF assms(1)] by simp
  then have "2 ^ 52 \<le> r / quantum r" using P unfolding q by (simp add: field_simps)
  then have "of_int (2 ^ 52) \<le> r / quantum r" by simp
  then have "round_half_even (of_int (2 ^ 52)) \<le> round_half_even (r / quantum r)"
    by (rule round_half_even_mono)
  then have "rat_of_int (2 ^ 52) \<le> of_int (round_half_even (r / quantum r))"
    by (simp only: round_half_even_of_int of_int_le_iff)
  then have le: "of_int (2 ^ 52) * quantum r \<le> rat_of_int (round_half_even (r / quantum r)) * quantum r"
    by (intro mult_right_mono) simp_all
  have "?P = of_int (2 ^ 52) * quantum r" unfolding q by simp
  also note le
  also have "rat_of_int (round_half_even (r / quantum r)) * quantum r = round_mag r"
    using assms(1) by (simp add: round_mag_def)
  finally show ?thesis .
qed

lemma round_mag_mono:
  assumes "0 \<le> r" and "r \<le> s"
  shows "round_mag r \<le> round_mag s"
proof (cases "r = 0")
  case True
  then show ?thesis using assms round_mag_nonneg [of s] by simp
next
  case False
  then have r: "0 < r" and s: "0 < s" using assms by simp_all
  let ?er = "max (lg2 r) (- 1022)" and ?es = "max (lg2 s) (- 1022)"
  have le: "?er \<le> ?es" using lg2_mono [OF r assms(2)] by simp
  show ?thesis
  proof (cases "?er = ?es")
    case True
    then have q: "quantum r = quantum s" by (simp add: quantum_def)
    have "r / quantum s \<le> s / quantum s" using assms(2) by (intro divide_right_mono) simp_all
    then have "round_half_even (r / quantum s) \<le> round_half_even (s / quantum s)"
      by (rule round_half_even_mono)
    then have "rat_of_int (round_half_even (r / quantum s)) * quantum s \<le>
               of_int (round_half_even (s / quantum s)) * quantum s"
      by (intro mult_right_mono) simp_all
    then show ?thesis using r s by (simp add: round_mag_def q)
  next
    case False
    from False le have lt: "?er < ?es" by (rule order.not_eq_order_implies_strict)
    then have norm: "- 1022 \<le> lg2 s" and es: "?es = lg2 s" by linarith+
    have "round_mag r \<le> power_int 2 (?er + 1)" by (rule round_mag_upper [OF r])
    also have "\<dots> \<le> power_int 2 (lg2 s)"
    proof (rule power_int_increasing)
      show "?er + 1 \<le> lg2 s" using lt es by linarith
    qed simp
    also have "\<dots> \<le> round_mag s" by (rule round_mag_lower [OF s norm])
    finally show ?thesis .
  qed
qed

lemma round_mag_pow2:
  assumes "- 1074 \<le> k"
  shows "round_mag (power_int 2 k) = power_int 2 k"
proof -
  have lg: "lg2 (power_int 2 k) = k"
    by (rule lg2_unique) (simp_all add: pow2_Suc)
  let ?d = "k - (max k (- 1022) - 52)"
  have q: "quantum (power_int 2 k) = power_int 2 (max k (- 1022) - 52)" by (simp add: quantum_def lg)
  have nn: "0 \<le> ?d" using assms by (simp add: max_def)
  have "power_int (2::rat) k / quantum (power_int 2 k) = power_int 2 ?d"
    unfolding q by (rule power_int_diff [symmetric]) simp
  also have "\<dots> = of_int (2 ^ nat ?d)" using nn by (simp add: pow2_nonneg)
  finally have ratio: "power_int (2::rat) k / quantum (power_int 2 k) = of_int (2 ^ nat ?d)" .
  have "round_mag (power_int 2 k) = power_int 2 k / quantum (power_int 2 k) * quantum (power_int 2 k)"
    unfolding round_mag_def by (simp only: ratio round_half_even_of_int) simp
  then show ?thesis by simp
qed

lemma round_mag_one [simp]: "round_mag 1 = 1"
  using round_mag_pow2 [of 0] by simp


lemma f64_max_bracket: "power_int 2 1023 \<le> f64_max" "f64_max < power_int 2 1024"
proof -
  have "(2::rat) ^ 1023 = 2 ^ 52 * 2 ^ 971" by (simp flip: power_add)
  also have "\<dots> \<le> (2 ^ 53 - 1) * 2 ^ 971" by (intro mult_right_mono) simp_all
  finally show "power_int 2 1023 \<le> f64_max" by (simp only: f64_max_def power_int_numeral)
  have "(2 ^ 53 - 1) * 2 ^ 971 < (2::rat) ^ 53 * 2 ^ 971" by (intro mult_strict_right_mono) simp_all
  also have "\<dots> = 2 ^ 1024" by (simp flip: power_add)
  finally show "f64_max < power_int 2 1024" by (simp only: f64_max_def power_int_numeral)
qed

lemma pow2_le_f64_max: "k \<le> 1023 \<Longrightarrow> power_int 2 k \<le> f64_max"
proof -
  assume "k \<le> 1023"
  then have "power_int (2::rat) k \<le> power_int 2 1023"
    by (intro power_int_increasing) simp_all
  then show ?thesis using f64_max_bracket(1) by (rule order_trans)
qed

lemma f64_max_ge: "0 \<le> f64_max" "1 \<le> f64_max" "\<not> f64_max < 0" "\<not> f64_max < 1"
proof -
  show 1: "1 \<le> f64_max" using pow2_le_f64_max [of 0] by simp
  then show "0 \<le> f64_max" "\<not> f64_max < 0" "\<not> f64_max < 1" by linarith+
qed

lemma round_mag_f64_max: "round_mag f64_max = f64_max"
proof -
  have lg: "lg2 f64_max = 1023"
    by (rule lg2_unique) (use f64_max_bracket in simp_all)
  have q: "quantum f64_max = 2 ^ 971"
    by (simp add: quantum_def lg)
  have "f64_max / quantum f64_max = of_int (2 ^ 53 - 1)"
    unfolding q by (simp add: f64_max_def)
  then have "round_half_even (f64_max / quantum f64_max) = 2 ^ 53 - 1"
    by (simp only: round_half_even_of_int)
  moreover have "f64_max \<noteq> 0" using f64_max_ge(2) by linarith
  ultimately show ?thesis
    unfolding round_mag_def q by (simp add: f64_max_def)
qed


lemma round64_nonneg:
  assumes "0 \<le> x" and "round_mag x \<le> f64_max"
  shows "round64 x = Fin (round_mag x)"
proof (cases "x = 0")
  case True
  then show ?thesis using f64_max_ge by (simp add: round64_def)
next
  case False
  with assms have "0 < x" by simp
  then show ?thesis using assms(2) by (simp add: round64_def)
qed

lemma round64_zero [simp]: "round64 0 = Fin 0"
  using f64_max_ge by (simp add: round64_def)

text \<open>Every rounded value is a multiple of the smallest positive float.\<close>

lemma round_mag_grid: "\<exists>k. round_mag r = of_int k * power_int 2 (- 1074)"
proof (cases "r = 0")
  case True
  then have "round_mag r = of_int 0 * power_int 2 (- 1074)" by simp
  then show ?thesis by blast
next
  case False
  let ?e = "max (lg2 r) (- 1022)"
  have nn: "0 \<le> ?e + 1022" by simp
  have "power_int (2::rat) (?e - 52) = power_int 2 ((?e + 1022) + (- 1074))" by simp
  also have "\<dots> = power_int 2 (?e + 1022) * power_int 2 (- 1074)"
    by (rule power_int_add) simp
  also have "power_int (2::rat) (?e + 1022) = of_int (2 ^ nat (?e + 1022))"
    using nn by (simp add: pow2_nonneg)
  finally have "quantum r = of_int (2 ^ nat (?e + 1022)) * power_int 2 (- 1074)"
    by (simp add: quantum_def)
  then have "round_mag r =
      of_int (round_half_even (r / quantum r) * 2 ^ nat (?e + 1022)) * power_int 2 (- 1074)"
    using False by (simp add: round_mag_def)
  then show ?thesis by blast
qed

lemma is_f64_grid:
  assumes "is_f64 a"
  shows "\<exists>k. a = of_int k * power_int 2 (- 1074)"
proof -
  have a: "a = sgn a * round_mag \<bar>a\<bar>"
    using assms by (simp add: is_f64_def round64_def split: if_splits)
  obtain k where k: "round_mag \<bar>a\<bar> = of_int k * power_int 2 (- 1074)"
    using round_mag_grid by blast
  consider "a = 0" | "0 < a" | "a < 0" by linarith
  then have "a = of_int 0 * power_int 2 (- 1074) \<or> a = of_int k * power_int 2 (- 1074) \<or>
      a = of_int (- k) * power_int 2 (- 1074)"
  proof cases
    case 1
    then show ?thesis by simp
  next
    case 2
    then show ?thesis using a k by simp
  next
    case 3
    then show ?thesis using a k by simp
  qed
  then show ?thesis by blast
qed

lemma is_f64_gap:
  assumes "is_f64 a" and "is_f64 b" and "a < b"
  shows "power_int 2 (- 1074) \<le> b - a"
proof -
  obtain ka where ka: "a = of_int ka * power_int 2 (- 1074)" using is_f64_grid [OF assms(1)] by blast
  obtain kb where kb: "b = of_int kb * power_int 2 (- 1074)" using is_f64_grid [OF assms(2)] by blast
  have u: "0 < power_int (2::rat) (- 1074)" by simp
  have "rat_of_int ka * power_int 2 (- 1074) < of_int kb * power_int 2 (- 1074)"
    using assms(3) ka kb by simp
  then have "rat_of_int ka < of_int kb" using u by (simp only: mult_less_cancel_right_pos)
  then have "ka + 1 \<le> kb" by simp
  then have "rat_of_int (ka + 1) \<le> of_int kb" by (simp only: of_int_le_iff)
  then have "rat_of_int (ka + 1) * power_int 2 (- 1074) \<le> of_int kb * power_int 2 (- 1074)"
    using u by (simp only: mult_le_cancel_right_pos)
  then show ?thesis unfolding ka kb by (simp add: algebra_simps)
qed

lemma round_mag_pos:
  assumes "power_int 2 (- 1074) \<le> x"
  shows "0 < round_mag x"
proof -
  have "0 \<le> power_int (2::rat) (- 1074)" by simp
  then have "round_mag (power_int 2 (- 1074)) \<le> round_mag x"
    using assms by (rule round_mag_mono)
  then have "power_int 2 (- 1074) \<le> round_mag x" by (simp only: round_mag_pow2)
  moreover have "0 < power_int (2::rat) (- 1074)" by simp
  ultimately show ?thesis by linarith
qed


lemma encode_value:
  assumes "lo \<le> v" and "v \<le> hi"
    and "0 < round_mag (hi - lo)" and "round_mag (hi - lo) \<le> f64_max"
  shows "fdiv (round64 (v - lo)) (round64 (hi - lo)) = Fin (encoded lo hi v)"
    and "0 \<le> encoded lo hi v" and "encoded lo hi v \<le> 1"
proof -
  let ?d = "round_mag (v - lo)" and ?D = "round_mag (hi - lo)"
  have d0: "0 \<le> ?d" using assms(1) by (intro round_mag_nonneg) simp
  have dD: "?d \<le> ?D" using assms(1,2) by (intro round_mag_mono) simp_all
  have n: "round64 (v - lo) = Fin ?d"
    using assms(1) dD assms(4) by (intro round64_nonneg) simp_all
  have D: "round64 (hi - lo) = Fin ?D"
    using assms(1,2,4) by (intro round64_nonneg) simp_all
  have q0: "0 \<le> ?d / ?D" using d0 assms(3) by simp
  have q1: "?d / ?D \<le> 1" using dD assms(3) by simp
  have "round_mag (?d / ?D) \<le> round_mag 1" using q0 q1 by (rule round_mag_mono)
  then show le1: "encoded lo hi v \<le> 1" by (simp add: encoded_def)
  show "0 \<le> encoded lo hi v" unfolding encoded_def using q0 by (rule round_mag_nonneg)
  have "round64 (?d / ?D) = Fin (round_mag (?d / ?D))"
    using q0 le1 f64_max_ge(2) by (intro round64_nonneg) (simp_all add: encoded_def)
  then show "fdiv (round64 (v - lo)) (round64 (hi - lo)) = Fin (encoded lo hi v)"
    using assms(3) by (simp add: n D encoded_def)
qed

lemma encoded_min [simp]: "encoded lo hi lo = 0"
  by (simp add: encoded_def)

lemma encoded_max: "0 < round_mag (hi - lo) \<Longrightarrow> encoded lo hi hi = 1"
  by (simp add: encoded_def)

lemma fold_fmin_Fin: "fold fmin (map Fin rs) (Fin r) = Fin (fold min rs r)"
  by (induction rs arbitrary: r) (auto simp: fmin_def min_def)

lemma fold_fmax_Fin: "fold fmax (map Fin rs) (Fin r) = Fin (fold max rs r)"
  by (induction rs arbitrary: r) (auto simp: fmax_def max_def)

lemma filter_Fin: "filter (\<lambda>x. x \<noteq> NaN) (map Fin rs) = map Fin rs"
  by (induction rs) auto

lemma series_min_Fin: "rs \<noteq> [] \<Longrightarrow> series_min (map Fin rs) = Fin (Min (set rs))"
proof (cases rs)
  case Nil
  assume "rs \<noteq> []"
  with Nil show ?thesis by simp
next
  case (Cons r rs')
  have "filter (\<lambda>x. x \<noteq> NaN) (map Fin (r # rs')) = Fin r # map Fin rs'"
    using filter_Fin [of "r # rs'"] by simp
  then have "series_min (map Fin (r # rs')) = Fin (fold min rs' r)"
    unfolding series_min_def by (simp add: fold_fmin_Fin)
  also have "fold min rs' r = Min (set (r # rs'))"
    by (rule Min.set_eq_fold [symmetric])
  finally show ?thesis using Cons by simp
qed

lemma series_max_Fin: "rs \<noteq> [] \<Longrightarrow> series_max (map Fin rs) = Fin (Max (set rs))"
proof (cases rs)
  case Nil
  assume "rs \<noteq> []"
  with Nil show ?thesis by simp
next
  case (Cons r rs')
  have "filter (\<lambda>x. x \<noteq> NaN) (map Fin (r # rs')) = Fin r # map Fin rs'"
    using filter_Fin [of "r # rs'"] by simp
  then have "series_max (map Fin (r # rs')) = Fin (fold max rs' r)"
    unfolding series_max_def by (simp add: fold_fmax_Fin)
  also have "fold max rs' r = Max (set (r # rs'))"
    by (rule Max.set_eq_fold [symmetric])
  finally show ?thesis using Cons by simp
qed

lemma normalize_values_encoded:
  assumes "rs \<noteq> []"
    and "0 < round_mag (Max (set rs) - Min (set rs))"
    and "round_mag (Max (set rs) - Min (set rs)) \<le> f64_max"
  shows "normalize_values (map Fin rs) = map (\<lambda>v. Fin (encoded (Min (set rs)) (Max (set rs)) v)) rs"
proof -
  have "fdiv (fsub (Fin v) (Fin (Min (set rs)))) (fsub (Fin (Max (set rs))) (Fin (Min (set rs)))) =
        Fin (encoded (Min (set rs)) (Max (set rs)) v)" if "v \<in> set rs" for v
  proof -
    from that have "Min (set rs) \<le> v" "v \<le> Max (set rs)" by simp_all
    from encode_value(1) [OF this assms(2,3)] show ?thesis by simp
  qed
  then show ?thesis
    using assms(1) by (simp add: normalize_values_def series_min_Fin series_max_Fin)
qed

lemma wrap64_id: "- (2 ^ 63) \<le> x \<Longrightarrow> x < 2 ^ 63 \<Longrightarrow> wrap64 x = x"
  by (simp add: wrap64_def)

lemma Min_of_int: "ns \<noteq> [] \<Longrightarrow> Min (rat_of_int ` set ns) = of_int (Min (set ns))"
  using mono_Min_commute [of rat_of_int "set ns"] by (simp add: mono_def)

lemma Max_of_int: "ns \<noteq> [] \<Longrightarrow> Max (rat_of_int ` set ns) = of_int (Max (set ns))"
  using mono_Max_commute [of rat_of_int "set ns"] by (simp add: mono_def)

lemma int_range_rounds:
  assumes "(1::int) \<le> k" and "k < 2 ^ 63"
  shows "0 < round_mag (of_int k)" and "round_mag (of_int k) \<le> f64_max"
proof -
  have "round_mag 1 \<le> round_mag (of_int k)" using assms(1) by (intro round_mag_mono) simp_all
  then show "0 < round_mag (of_int k)" by simp
  have "k \<le> 2 ^ 63" using assms(2) by simp
  then have "rat_of_int k \<le> of_int (2 ^ 63)" by (simp only: of_int_le_iff)
  then have "rat_of_int k \<le> power_int 2 63" by simp
  moreover have "0 \<le> rat_of_int k" using assms(1) by simp
  ultimately have "round_mag (of_int k) \<le> round_mag (power_int 2 63)" by (rule round_mag_mono [rotated])
  also have "\<dots> = power_int 2 63" by (rule round_mag_pow2) simp
  also have "\<dots> \<le> f64_max" by (rule pow2_le_f64_max) simp
  finally show "round_mag (of_int k) \<le> f64_max" .
qed

lemma normalize_ints_encoded:
  assumes "ns \<noteq> []" and "Min (set ns) < Max (set ns)" and "Max (set ns) - Min (set ns) < 2 ^ 63"
  shows "normalize_ints ns =
           map (\<lambda>v. Fin (encoded (of_int (Min (set ns))) (of_int (Max (set ns))) (of_int v))) ns"
proof -
  let ?lo = "Min (set ns)" and ?hi = "Max (set ns)"
  have k: "1 \<le> ?hi - ?lo" using assms(2) by simp
  note D = int_range_rounds [OF k assms(3)]
  have wD: "wrap64 (?hi - ?lo) = ?hi - ?lo" using k assms(3) by (intro wrap64_id) simp_all
  have "fdiv (float_of_int64 (wrap64 (v - ?lo))) (float_of_int64 (wrap64 (?hi - ?lo))) =
        Fin (encoded (of_int ?lo) (of_int ?hi) (of_int v))" if "v \<in> set ns" for v
  proof -
    from that have b: "?lo \<le> v" "v \<le> ?hi" by simp_all
    then have wv: "wrap64 (v - ?lo) = v - ?lo" using assms(3) by (intro wrap64_id) simp_all
    have b': "rat_of_int ?lo \<le> of_int v" "rat_of_int v \<le> of_int ?hi" using b by simp_all
    have D': "0 < round_mag (rat_of_int ?hi - of_int ?lo)" "round_mag (rat_of_int ?hi - of_int ?lo) \<le> f64_max"
      using D by simp_all
    from encode_value(1) [OF b' D'] show ?thesis
      by (simp add: wv wD float_of_int64_def)
  qed
  then show ?thesis using assms(1) by (simp add: normalize_ints_def)
qed

text \<open>Rounding a number whose exponent is known.\<close>

lemma round64_bracket:
  assumes "power_int 2 k \<le> \<bar>r\<bar>" and "\<bar>r\<bar> < power_int 2 (k + 1)" and "- 1022 \<le> k" and "k < 1023"
  shows "round64 r = Fin (sgn r * (of_int (round_half_even (\<bar>r\<bar> / power_int 2 (k - 52))) * power_int 2 (k - 52)))"
proof -
  have lg: "lg2 \<bar>r\<bar> = k" using assms(1,2) by (rule lg2_unique)
  have pos: "0 < \<bar>r\<bar>" using assms(1) pow2_pos [of k] by linarith
  have q: "quantum \<bar>r\<bar> = power_int 2 (k - 52)" using assms(3) by (simp add: quantum_def lg max_def)
  have m: "round_mag \<bar>r\<bar> = of_int (round_half_even (\<bar>r\<bar> / power_int 2 (k - 52))) * power_int 2 (k - 52)"
    using pos by (simp add: round_mag_def q)
  have "round_mag \<bar>r\<bar> \<le> power_int 2 (max (lg2 \<bar>r\<bar>) (- 1022) + 1)" by (rule round_mag_upper [OF pos])
  also have "\<dots> = power_int 2 (k + 1)" using assms(3) by (simp add: lg max_def)
  also have "\<dots> \<le> f64_max" using assms(4) by (intro pow2_le_f64_max) simp
  finally have "\<not> f64_max < round_mag \<bar>r\<bar>" by simp
  then show ?thesis by (simp add: round64_def m)
qed

text \<open>A number with at most 53 significant bits is a float.\<close>

lemma round64_exact:
  assumes "power_int 2 k \<le> \<bar>r\<bar>" and "\<bar>r\<bar> < power_int 2 (k + 1)" and "- 1022 \<le> k" and "k < 1023"
    and "\<bar>r\<bar> = of_int n * power_int 2 (k - 52)"
  shows "round64 r = Fin r"
proof -
  have "\<bar>r\<bar> / power_int 2 (k - 52) = of_int n" using assms(5) by simp
  then have "round64 r = Fin (sgn r * \<bar>r\<bar>)"
    using round64_bracket [OF assms(1-4)] assms(5) by (simp only: round_half_even_of_int)
  then show ?thesis by (simp add: sgn_if)
qed

lemma round_half_even_tie: "round_half_even (of_int n + 1 / 2) = (if even n then n else n + 1)"
proof -
  have "\<lfloor>rat_of_int n + 1 / 2\<rfloor> = n" by (simp add: floor_unique)
  then show ?thesis by (simp add: round_half_even_def Let_def)
qed

lemma round64_tie_example: "round64 9007199254740993 = Fin 9007199254740992"
proof -
  have e: "(9007199254740993::rat) / 2 = rat_of_int 4503599627370496 + 1 / 2" by simp
  have "round_half_even (9007199254740993 / 2) = 4503599627370496"
    unfolding e round_half_even_tie by simp
  then show ?thesis
    using round64_bracket [of 53 9007199254740993] by simp
qed

lemma round64_values:
  "round64 1 = Fin 1" "round64 2 = Fin 2" "round64 (1 / 2) = Fin (1 / 2)"
  "round64 (3 / 2) = Fin (3 / 2)" "round64 10 = Fin 10" "round64 15 = Fin 15"
  "round64 20 = Fin 20" "round64 100 = Fin 100" "round64 200 = Fin 200"
  "round64 9007199254740992 = Fin 9007199254740992"
proof -
  show "round64 1 = Fin 1"
    by (rule round64_exact [where k = 0 and n = "2 ^ 52"]) (simp_all add: power_int_minus field_simps)
  show "round64 2 = Fin 2"
    by (rule round64_exact [where k = 1 and n = "2 ^ 52"]) (simp_all add: power_int_minus field_simps)
  show "round64 (1 / 2) = Fin (1 / 2)"
    by (rule round64_exact [where k = "- 1" and n = "2 ^ 52"]) (simp_all add: power_int_minus field_simps)
  show "round64 (3 / 2) = Fin (3 / 2)"
    by (rule round64_exact [where k = 0 and n = "3 * 2 ^ 51"]) (simp_all add: power_int_minus field_simps)
  show "round64 10 = Fin 10"
    by (rule round64_exact [where k = 3 and n = "10 * 2 ^ 49"]) (simp_all add: power_int_minus field_simps)
  show "round64 15 = Fin 15"
    by (rule round64_exact [where k = 3 and n = "15 * 2 ^ 49"]) (simp_all add: power_int_minus field_simps)
  show "round64 20 = Fin 20"
    by (rule round64_exact [where k = 4 and n = "20 * 2 ^ 48"]) (simp_all add: power_int_minus field_simps)
  show "round64 100 = Fin 100"
    by (rule round64_exact [where k = 6 and n = "100 * 2 ^ 46"]) (simp_all add: power_int_minus field_simps)
  show "round64 200 = Fin 200"
    by (rule round64_exact [where k = 7 and n = "200 * 2 ^ 45"]) (simp_all add: power_int_minus field_simps)
  show "round64 9007199254740992 = Fin 9007199254740992"
    by (rule round64_exact [where k = 53 and n = "2 ^ 52"]) simp_all
qed

section \<open>Properties of the Visual Encoder\<close>

text \<open>
  A numeric column with values \<open>rs\<close>: a float column of finite floats whose range does not
  exceed the largest float, or an integer column whose range is below \<open>2\<^sup>6\<^sup>3\<close>.  Then the
  range \<open>max - min\<close> is computed without overflow and is not zero when \<open>min < max\<close>.
\<close>

lemma range_rounds:
  assumes "col = FloatCol (map Fin rs) \<and> (\<forall>r \<in> set rs. is_f64 r) \<and>
             Max (set rs) - Min (set rs) \<le> f64_max \<or>
           col = IntCol ns \<and> rs = map rat_of_int ns \<and> Max (set ns) - Min (set ns) < 2 ^ 63"
    and "rs \<noteq> []" and "Min (set rs) < Max (set rs)"
  shows "0 < round_mag (Max (set rs) - Min (set rs))"
    and "round_mag (Max (set rs) - Min (set rs)) \<le> f64_max"
proof -
  let ?lo = "Min (set rs)" and ?hi = "Max (set rs)"
  have "0 < round_mag (?hi - ?lo) \<and> round_mag (?hi - ?lo) \<le> f64_max"
    using assms(1)
  proof
    assume f: "col = FloatCol (map Fin rs) \<and> (\<forall>r \<in> set rs. is_f64 r) \<and> ?hi - ?lo \<le> f64_max"
    have "?lo \<in> set rs" "?hi \<in> set rs" using assms(2) by simp_all
    with f have "is_f64 ?lo" "is_f64 ?hi" by blast+
    then have "power_int 2 (- 1074) \<le> ?hi - ?lo" using assms(3) by (rule is_f64_gap)
    then have pos: "0 < round_mag (?hi - ?lo)" by (rule round_mag_pos)
    have "round_mag (?hi - ?lo) \<le> round_mag f64_max"
      using assms(3) f by (intro round_mag_mono) simp_all
    then show ?thesis using pos by (simp add: round_mag_f64_max)
  next
    assume i: "col = IntCol ns \<and> rs = map rat_of_int ns \<and> Max (set ns) - Min (set ns) < 2 ^ 63"
    then have ns: "ns \<noteq> []" using assms(2) by auto
    have eq: "?hi - ?lo = of_int (Max (set ns) - Min (set ns))"
      using i ns by (simp add: Min_of_int Max_of_int)
    then have "1 \<le> Max (set ns) - Min (set ns)" using assms(3) by simp
    from int_range_rounds [OF this] i show ?thesis unfolding eq by blast
  qed
  then show "0 < round_mag (?hi - ?lo)" and "round_mag (?hi - ?lo) \<le> f64_max" by blast+
qed

lemma normalize_column_encoded:
  assumes "col = FloatCol (map Fin rs) \<and> (\<forall>r \<in> set rs. is_f64 r) \<and>
             Max (set rs) - Min (set rs) \<le> f64_max \<or>
           col = IntCol ns \<and> rs = map rat_of_int ns \<and> Max (set ns) - Min (set ns) < 2 ^ 63"
    and "rs \<noteq> []" and "Min (set rs) < Max (set rs)"
  shows "normalize_column col =
           Inr (FloatCol (map (\<lambda>v. Fin (encoded (Min (set rs)) (Max (set rs)) v)) rs))"
  using assms(1)
proof
  assume "col = FloatCol (map Fin rs) \<and> (\<forall>r \<in> set rs. is_f64 r) \<and>
            Max (set rs) - Min (set rs) \<le> f64_max"
  then show ?thesis
    using normalize_values_encoded [OF assms(2) range_rounds [OF assms]] by simp
next
  assume i: "col = IntCol ns \<and> rs = map rat_of_int ns \<and> Max (set ns) - Min (set ns) < 2 ^ 63"
  then have ns: "ns \<noteq> []" using assms(2) by auto
  have lt: "Min (set ns) < Max (set ns)"
    using assms(3) i ns by (simp add: Min_of_int Max_of_int)
  from i have lim: "Max (set ns) - Min (set ns) < 2 ^ 63" by simp
  show ?thesis
    using normalize_ints_encoded [OF ns lt lim] i ns
    by (simp add: Min_of_int Max_of_int comp_def)
qed

text \<open>
  Claim C3, as the code has it.  On the integer column 0, \<open>2\<^sup>5\<^sup>3\<close>, \<open>2\<^sup>5\<^sup>3 + 1\<close> the maximum is
  turned into the float \<open>2\<^sup>5\<^sup>3\<close> before the division, so the middle value, strictly between
  the minimum and the maximum, maps to exactly 1 and not strictly inside (0, 1).
\<close>

theorem normalize_column_interior_value_counterexample:
  "normalize_column (IntCol [0, 2 ^ 53, 2 ^ 53 + 1]) = Inr (FloatCol [Fin 0, Fin 1, Fin 1])"
proof -
  have w: "wrap64 0 = 0" "wrap64 9007199254740992 = 9007199254740992"
      "wrap64 9007199254740993 = 9007199254740993"
    by (simp_all add: wrap64_def)
  have f: "float_of_int64 0 = Fin 0" "float_of_int64 9007199254740992 = Fin 9007199254740992"
      "float_of_int64 9007199254740993 = Fin 9007199254740992"
    using round64_values(10) round64_tie_example by (simp_all add: float_of_int64_def)
  show ?thesis
    by (simp add: normalize_ints_def w f round64_values(1))
qed

text \<open>
  Claim C3, amended.  On a numeric column with at least one row and a maximum above its
  minimum, whose range is computed without overflow (the values are finite and the range
  does not exceed the largest float, or the values are integers and the range is below
  \<open>2\<^sup>6\<^sup>3\<close>), the Visual Encoder raises nothing and returns a float column of as many rows,
  which holds for each value \<open>v\<close> the float \<open>(v - min) / (max - min)\<close>, the two differences
  and the quotient rounded.  The minimum goes to exactly 0, the maximum to exactly 1, and
  every value goes into the closed interval from 0 to 1.
\<close>

theorem normalize_column_maps_into_unit_interval:
  assumes "col = FloatCol (map Fin rs) \<and> (\<forall>r \<in> set rs. is_f64 r) \<and>
             Max (set rs) - Min (set rs) \<le> f64_max \<or>
           col = IntCol ns \<and> rs = map rat_of_int ns \<and> Max (set ns) - Min (set ns) < 2 ^ 63"
    and "rs \<noteq> []" and "Min (set rs) < Max (set rs)"
  shows "let lo = Min (set rs); hi = Max (set rs) in
           normalize_column col = Inr (FloatCol (map (\<lambda>v. Fin (encoded lo hi v)) rs)) \<and>
           length (map (\<lambda>v. Fin (encoded lo hi v)) rs) = length rs \<and>
           encoded lo hi lo = 0 \<and> encoded lo hi hi = 1 \<and>
           (\<forall>v \<in> set rs. 0 \<le> encoded lo hi v \<and> encoded lo hi v \<le> 1)"
proof -
  note D = range_rounds [OF assms]
  have "0 \<le> encoded (Min (set rs)) (Max (set rs)) v \<and> encoded (Min (set rs)) (Max (set rs)) v \<le> 1"
    if "v \<in> set rs" for v
  proof -
    from that have "Min (set rs) \<le> v" "v \<le> Max (set rs)" by simp_all
    from encode_value(2,3) [OF this D] show ?thesis by blast
  qed
  then show ?thesis
    using normalize_column_encoded [OF assms] encoded_max [OF D(1)]
    by (simp add: Let_def)
qed

theorem normalize_column_maps_into_unit_interval_witness:
  "normalize_column (IntCol [100, 250, 300]) =
     Inr (FloatCol [Fin (encoded 100 300 100), Fin (encoded 100 300 250), Fin (encoded 100 300 300)]) \<and>
   encoded 100 300 100 = 0 \<and> encoded 100 300 300 = 1 \<and>
   0 \<le> encoded 100 300 250 \<and> encoded 100 300 250 \<le> 1"
  using normalize_column_maps_into_unit_interval
    [of "IntCol [100, 250, 300]" "[100, 250, 300]" "[100, 250, 300]"]
  by (simp add: Let_def)

lemma int_values: "map (\<lambda>i. Fin (rat_of_int i)) ns = map Fin (map rat_of_int ns)"
  by simp

lemma normalize_values_constant:
  assumes "rs \<noteq> []" and "Min (set rs) = Max (set rs)"
  shows "normalize_values (map Fin rs) = replicate (length rs) NaN"
proof -
  have "fdiv (fsub (Fin v) (Fin (Min (set rs)))) (fsub (Fin (Max (set rs))) (Fin (Min (set rs)))) = NaN"
    if "v \<in> set rs" for v
  proof -
    from that have "Min (set rs) \<le> v" "v \<le> Max (set rs)" by simp_all
    with assms(2) have "v = Max (set rs)" by simp
    then show ?thesis using assms(2) by (simp add: inf_of_sign_def)
  qed
  then have "normalize_values (map Fin rs) = map (\<lambda>v. NaN) rs"
    using assms(1) by (simp add: normalize_values_def series_min_Fin series_max_Fin)
  then show ?thesis by (simp add: map_replicate_const)
qed

lemma normalize_ints_constant:
  assumes "ns \<noteq> []" and "Min (set ns) = Max (set ns)"
  shows "normalize_ints ns = replicate (length ns) NaN"
proof -
  have wz: "wrap64 0 = 0" by (simp add: wrap64_def)
  have "fdiv (float_of_int64 (wrap64 (v - Min (set ns))))
          (float_of_int64 (wrap64 (Max (set ns) - Min (set ns)))) = NaN" if "v \<in> set ns" for v
  proof -
    from that have "Min (set ns) \<le> v" "v \<le> Max (set ns)" by simp_all
    with assms(2) have "v = Max (set ns)" by simp
    then show ?thesis using assms(2) by (simp add: wz float_of_int64_def inf_of_sign_def)
  qed
  then have "normalize_ints ns = map (\<lambda>v. NaN) ns"
    using assms(1) by (simp add: normalize_ints_def)
  then show ?thesis by (simp add: map_replicate_const)
qed

text \<open>
  Claim C6.  On a numeric column with at least one row whose maximum equals its minimum,
  the Visual Encoder divides by zero in every row: no branch guards the division, nothing
  is raised, and every row of the result is \<open>NaN\<close>, which is no number, not a constant
  chosen for the case.
\<close>

theorem normalize_column_constant_is_nan:
  assumes "col = FloatCol (map Fin rs) \<or> (col = IntCol ns \<and> rs = map rat_of_int ns)"
    and "rs \<noteq> []" and "Min (set rs) = Max (set rs)"
  shows "normalize_column col = Inr (FloatCol (replicate (length rs) NaN))"
  using assms(1)
proof
  assume "col = FloatCol (map Fin rs)"
  then show ?thesis using normalize_values_constant [OF assms(2,3)] by simp
next
  assume i: "col = IntCol ns \<and> rs = map rat_of_int ns"
  then have ns: "ns \<noteq> []" using assms(2) by auto
  have "rat_of_int (Min (set ns)) = of_int (Max (set ns))"
    using assms(3) i ns by (simp add: Min_of_int Max_of_int)
  then have "Min (set ns) = Max (set ns)" by simp
  from normalize_ints_constant [OF ns this] i show ?thesis by simp
qed

theorem normalize_column_constant_is_nan_witness:
  "normalize_column (FloatCol [Fin 7, Fin 7]) = Inr (FloatCol [NaN, NaN])"
  using normalize_column_constant_is_nan [of "FloatCol [Fin 7, Fin 7]" "[7, 7]" "[]"]
  by simp

section \<open>Properties of the Layer Builders\<close>

lemma check_required_None: "check_required df cs = None \<longleftrightarrow> set cs \<subseteq> set (columns df)"
  by (induction cs) auto

lemma getitem_present:
  "c \<in> set (columns df) \<Longrightarrow> \<exists>col. getitem df c = Inr col"
  by (cases "map_of df c") (auto simp: getitem_def columns_def map_of_eq_None_iff)

lemma getitem_Some: "map_of df c = Some col \<Longrightarrow> getitem df c = Inr col"
  by (simp add: getitem_def)

lemma map_of_setitem: "map_of (setitem df c v) = (map_of df)(c \<mapsto> v)"
  by (simp add: setitem_def update_conv')

lemma columns_setitem: "set (columns (setitem df c v)) = insert c (set (columns df))"
  by (simp add: setitem_def columns_def dom_update)

lemma getitem_setitem_same: "getitem (setitem df c v) c = Inr v"
  by (simp add: getitem_def map_of_setitem)

lemma getitem_setitem_other: "c' \<noteq> c \<Longrightarrow> getitem (setitem df c v) c' = getitem df c'"
  by (simp add: getitem_def map_of_setitem)

lemma getitem_setitem_present:
  "c' \<in> set (columns df) \<Longrightarrow> \<exists>col. getitem (setitem df c v) c' = Inr col"
  by (rule getitem_present) (simp add: columns_setitem)

lemma ebind_Inr [simp]: "ebind (Inr x) f = f x"
  by (simp add: ebind_def)

lemma ebind_Inl [simp]: "ebind (Inl e) f = Inl e"
  by (simp add: ebind_def)

lemma those_list_trunc: "\<exists>is. those_list (map trunc_flt (map Fin rs)) = Some is"
  by (induction rs) (auto simp: Let_def)

lemma astype_int_numeric:
  assumes "col = FloatCol (map Fin rs) \<or> col = IntCol ns"
  shows "\<exists>is. astype_int col = Inr is"
  using assms those_list_trunc [of rs] by auto

text \<open>The marker size of an encoded value: shifted by 1 and scaled by 10 it is not negative.\<close>

lemma size_of_encoded:
  assumes "0 \<le> q" and "q \<le> 1"
  shows "\<exists>t. fmul (fadd (Fin q) (Fin 1)) (Fin 10) = Fin t \<and> 0 \<le> t"
proof -
  let ?s = "round_mag (q + 1)"
  have "round_mag (q + 1) \<le> round_mag (power_int 2 1)" using assms by (intro round_mag_mono) simp_all
  then have s2: "?s \<le> 2" by (simp only: round_mag_pow2) simp
  then have "?s \<le> f64_max" using f64_max_ge(2) pow2_le_f64_max [of 1] by simp
  then have a: "fadd (Fin q) (Fin 1) = Fin ?s" using assms by (simp add: round64_nonneg)
  have s0: "0 \<le> ?s" using assms by (intro round_mag_nonneg) simp
  let ?t = "round_mag (?s * 10)"
  have "?s * 10 \<le> power_int 2 5" using s2 by simp
  then have "round_mag (?s * 10) \<le> round_mag (power_int 2 5)" using s0 by (intro round_mag_mono) simp_all
  then have "?t \<le> power_int 2 5" by (simp only: round_mag_pow2)
  then have "?t \<le> f64_max" using pow2_le_f64_max [of 5] by simp
  then have m: "fmul (Fin ?s) (Fin 10) = Fin ?t" using s0 by (simp add: round64_nonneg)
  have "0 \<le> ?t" using s0 by (intro round_mag_nonneg) simp
  with a m show ?thesis by simp
qed

text \<open>
  On a numeric column with a range that is computed without overflow and is not zero, the
  size computation of the house builder, \<open>(normalize_column(price) + 1) * 10\<close>, raises
  nothing and gives sizes that plotly accepts.
\<close>

lemma numeric_sizes:
  assumes "col = FloatCol (map Fin rs) \<and> (\<forall>r \<in> set rs. is_f64 r) \<and>
             Max (set rs) - Min (set rs) \<le> f64_max \<or>
           col = IntCol ns \<and> rs = map rat_of_int ns \<and> Max (set ns) - Min (set ns) < 2 ^ 63"
    and "rs \<noteq> []" and "Min (set rs) < Max (set rs)"
  shows "\<exists>n s sz. normalize_column col = Inr n \<and> col_add n 1 = Inr s \<and>
           col_mul s 10 = Inr (FloatCol sz) \<and> valid_size (FloatCol sz) \<and> length sz = length rs"
proof -
  let ?qs = "map (\<lambda>v. Fin (encoded (Min (set rs)) (Max (set rs)) v)) rs"
  let ?sz = "map (\<lambda>x. fmul (fadd x (Fin 1)) (Fin 10)) ?qs"
  note D = range_rounds [OF assms]
  have n: "normalize_column col = Inr (FloatCol ?qs)" by (rule normalize_column_encoded [OF assms])
  have s: "col_add (FloatCol ?qs) 1 = Inr (FloatCol (map (\<lambda>x. fadd x (Fin 1)) ?qs))" by simp
  have m: "col_mul (FloatCol (map (\<lambda>x. fadd x (Fin 1)) ?qs)) 10 = Inr (FloatCol ?sz)"
    by (simp add: comp_def)
  have "fle (Fin 0) (fmul (fadd (Fin (encoded (Min (set rs)) (Max (set rs)) v)) (Fin 1)) (Fin 10))"
    if "v \<in> set rs" for v
  proof -
    from that have "Min (set rs) \<le> v" "v \<le> Max (set rs)" by simp_all
    from encode_value(2,3) [OF this D] size_of_encoded
    obtain t where "fmul (fadd (Fin (encoded (Min (set rs)) (Max (set rs)) v)) (Fin 1)) (Fin 10) = Fin t"
      and "0 \<le> t" by blast
    then show ?thesis by simp
  qed
  then have "valid_size (FloatCol ?sz)" by (simp add: list_all_iff comp_def)
  moreover have "length ?sz = length rs" by simp
  ultimately show ?thesis using n s m by blast
qed

text \<open>
  The house builder on a table that has the required columns, when the price column can
  be cast and its sizes are accepted.
\<close>

lemma plotting_houses_succeeds:
  assumes cols: "set [pc, qc, bc, la, lo] \<subseteq> set (columns df)"
    and pc: "pc \<noteq> ''hover_text''" "map_of df pc = Some pcol"
    and cast: "astype_int pcol = Inr pint"
    and sizes: "normalize_column pcol = Inr n" "col_add n 1 = Inr s" "col_mul s 10 = Inr sz"
      "valid_size sz"
  shows "\<exists>hover lacol locol. houses_hover_text repr df pc qc bc = Inr hover \<and>
           plotting_houses repr df fg pc qc bc la lo le =
           (None, setitem df ''hover_text'' (StrCol hover),
            add_trace fg (Scattermapbox
              \<lparr>sm_lat = Series lacol, sm_lon = Series locol, sm_mode = ''markers'',
               sm_marker = Some \<lparr>marker_size = SizeSeries sz, marker_color = ''blue'',
                 marker_opacity = None, marker_symbol = None\<rparr>,
               sm_line = None, sm_text = Some (StrCol hover), sm_hoverinfo = Some ''text'',
               sm_name = le, sm_showlegend = True\<rparr>))"
proof -
  obtain qcol where q: "getitem df qc = Inr qcol" using cols getitem_present [of qc df] by auto
  obtain bcol where b: "getitem df bc = Inr bcol" using cols getitem_present [of bc df] by auto
  obtain hover where h: "houses_hover_text repr df pc qc bc = Inr hover"
    by (simp add: houses_hover_text_def getitem_Some [OF pc(2)] q b cast)
  let ?df = "setitem df ''hover_text'' (StrCol hover)"
  obtain lacol where la: "getitem ?df la = Inr lacol"
    using cols getitem_setitem_present [of la df] by auto
  obtain locol where lo: "getitem ?df lo = Inr locol"
    using cols getitem_setitem_present [of lo df] by auto
  have p: "getitem ?df pc = Inr pcol"
    using pc by (simp add: getitem_setitem_other getitem_Some)
  have t: "houses_trace ?df pc la lo le =
      Inr (Scattermapbox
              \<lparr>sm_lat = Series lacol, sm_lon = Series locol, sm_mode = ''markers'',
               sm_marker = Some \<lparr>marker_size = SizeSeries sz, marker_color = ''blue'',
                 marker_opacity = None, marker_symbol = None\<rparr>,
               sm_line = None, sm_text = Some (StrCol hover), sm_hoverinfo = Some ''text'',
               sm_name = le, sm_showlegend = True\<rparr>)"
    by (simp add: houses_trace_def la lo p sizes Marker_def getitem_setitem_same)
  have c: "check_required df [pc, qc, bc, la, lo] = None"
    using cols by (simp only: check_required_None)
  have "plotting_houses repr df fg pc qc bc la lo le =
          (None, ?df, add_trace fg (Scattermapbox
              \<lparr>sm_lat = Series lacol, sm_lon = Series locol, sm_mode = ''markers'',
               sm_marker = Some \<lparr>marker_size = SizeSeries sz, marker_color = ''blue'',
                 marker_opacity = None, marker_symbol = None\<rparr>,
               sm_line = None, sm_text = Some (StrCol hover), sm_hoverinfo = Some ''text'',
               sm_name = le, sm_showlegend = True\<rparr>))"
    unfolding plotting_houses_def c by (simp add: h t Let_def)
  with h show ?thesis by blast
qed

lemma plotting_houses_valid:
  assumes cols: "set [pc, qc, bc, la, lo] \<subseteq> set (columns df)"
    and pc: "pc \<noteq> ''hover_text''" "map_of df pc = Some pcol"
    and num: "pcol = FloatCol (map Fin rs) \<and> (\<forall>r \<in> set rs. is_f64 r) \<and>
                Max (set rs) - Min (set rs) \<le> f64_max \<or>
              pcol = IntCol ns \<and> rs = map rat_of_int ns \<and> Max (set ns) - Min (set ns) < 2 ^ 63"
    and rng: "rs \<noteq> []" "Min (set rs) < Max (set rs)"
  shows "\<exists>hover lacol locol sz. houses_hover_text repr df pc qc bc = Inr hover \<and>
           plotting_houses repr df fg pc qc bc la lo le =
           (None, setitem df ''hover_text'' (StrCol hover),
            add_trace fg (Scattermapbox
              \<lparr>sm_lat = Series lacol, sm_lon = Series locol, sm_mode = ''markers'',
               sm_marker = Some \<lparr>marker_size = SizeSeries (FloatCol sz), marker_color = ''blue'',
                 marker_opacity = None, marker_symbol = None\<rparr>,
               sm_line = None, sm_text = Some (StrCol hover), sm_hoverinfo = Some ''text'',
               sm_name = le, sm_showlegend = True\<rparr>))"
proof -
  from num have "pcol = FloatCol (map Fin rs) \<or> pcol = IntCol ns" by blast
  then obtain pint where cast: "astype_int pcol = Inr pint" using astype_int_numeric by blast
  from numeric_sizes [OF num rng] obtain n s sz where
    "normalize_column pcol = Inr n" "col_add n 1 = Inr s" "col_mul s 10 = Inr (FloatCol sz)"
    "valid_size (FloatCol sz)" by blast
  from plotting_houses_succeeds [OF cols pc cast this, of repr fg le] show ?thesis by blast
qed

lemma add_choropleth_map_valid:
  assumes cols: "set [zc, hq] \<subseteq> set (columns df)"
  shows "\<exists>hover zcol qcol. choropleth_hover_text repr df zc hq = Inr hover \<and>
           add_choropleth_map repr df fg g zc hq le =
           (None, setitem df ''hover_text'' (StrCol hover),
            add_trace fg (Choroplethmapbox
              \<lparr>ch_geojson = g, ch_locations = zcol, ch_z = qcol,
               ch_colorscale = ''Hot'', ch_showscale = False, ch_marker_opacity = 4 / 10,
               ch_featureidkey = ''properties.ZCTA5CE10'', ch_name = le,
               ch_text = StrCol hover, ch_hoverinfo = ''text'', ch_showlegend = True\<rparr>))"
proof -
  obtain zcol where z: "getitem df zc = Inr zcol" using cols getitem_present [of zc df] by auto
  obtain qcol where q: "getitem df hq = Inr qcol" using cols getitem_present [of hq df] by auto
  obtain hover where h: "choropleth_hover_text repr df zc hq = Inr hover"
    by (simp add: choropleth_hover_text_def z q)
  let ?df = "setitem df ''hover_text'' (StrCol hover)"
  obtain zcol' where z': "getitem ?df zc = Inr zcol'"
    using cols getitem_setitem_present [of zc df] by auto
  obtain qcol' where q': "getitem ?df hq = Inr qcol'"
    using cols getitem_setitem_present [of hq df] by auto
  have c: "check_required df [zc, hq] = None"
    using cols by (simp only: check_required_None)
  have "add_choropleth_map repr df fg g zc hq le =
          (None, ?df, add_trace fg (Choroplethmapbox
             \<lparr>ch_geojson = g, ch_locations = zcol', ch_z = qcol',
              ch_colorscale = ''Hot'', ch_showscale = False, ch_marker_opacity = 4 / 10,
              ch_featureidkey = ''properties.ZCTA5CE10'', ch_name = le,
              ch_text = StrCol hover, ch_hoverinfo = ''text'', ch_showlegend = True\<rparr>))"
    unfolding add_choropleth_map_def c
    by (simp add: h Let_def choropleth_trace_def z' q' getitem_setitem_same)
  with h show ?thesis by blast
qed

lemma add_schools_layer_valid:
  assumes cols: "set [la, lo, nc, dc] \<subseteq> set (columns df)"
    and dtext: "map_of df dc = Some (StrCol ds)"
  shows "\<exists>hover lacol locol. schools_hover_text repr df nc dc = Inr hover \<and>
           add_schools_layer repr fg df la lo nc dc le =
           (None, setitem df ''hover_text'' (StrCol hover),
            add_trace fg (Scattermapbox
              \<lparr>sm_lat = Series lacol, sm_lon = Series locol, sm_mode = ''markers'',
               sm_marker = Some schools_marker, sm_line = None, sm_text = Some (StrCol hover),
               sm_hoverinfo = Some ''text'', sm_name = le, sm_showlegend = True\<rparr>))"
proof -
  obtain ncol where n: "getitem df nc = Inr ncol" using cols getitem_present [of nc df] by auto
  obtain hover where h: "schools_hover_text repr df nc dc = Inr hover"
    by (simp add: schools_hover_text_def n getitem_Some [OF dtext])
  let ?df = "setitem df ''hover_text'' (StrCol hover)"
  obtain lacol where la: "getitem ?df la = Inr lacol"
    using cols getitem_setitem_present [of la df] by auto
  obtain locol where lo: "getitem ?df lo = Inr locol"
    using cols getitem_setitem_present [of lo df] by auto
  have "add_schools_layer repr fg df la lo nc dc le =
          (None, ?df, add_trace fg (Scattermapbox
             \<lparr>sm_lat = Series lacol, sm_lon = Series locol, sm_mode = ''markers'',
              sm_marker = Some schools_marker, sm_line = None, sm_text = Some (StrCol hover),
              sm_hoverinfo = Some ''text'', sm_name = le, sm_showlegend = True\<rparr>))"
    unfolding add_schools_layer_def
    by (simp add: h Let_def schools_trace_def la lo getitem_setitem_same)
  with h show ?thesis by blast
qed

lemma update_with_park_overlay:
  "update_mapbox_layers cur [park_overlay p] =
     (if cur = [] then [park_overlay p] else map (\<lambda>l. park_overlay p) cur)"
proof -
  have u: "update_layer l (park_overlay p) = park_overlay p" for l
    by (simp add: update_layer_def park_overlay_def or_else_def)
  have "map (\<lambda>(i, l). update_layer l ([park_overlay p] ! (i mod length [park_overlay p]))) (enumerate n cur)
        = map (\<lambda>l. park_overlay p) cur" for n
    by (induction cur arbitrary: n) (simp_all add: u)
  moreover have "cur \<noteq> [] \<Longrightarrow> Suc 0 \<le> length cur"
    by (cases cur) simp_all
  ultimately show ?thesis
    by (simp add: update_mapbox_layers_def del: enumerate_simps)
qed

lemma add_park_outlines_layer_eq:
  "add_park_outlines_layer fg parks le =
     \<lparr>data = data fg @ [park_legend_trace le],
      layout = (layout fg)\<lparr>mapbox_layers :=
        (if mapbox_layers (layout fg) = [] then [park_overlay parks]
         else map (\<lambda>l. park_overlay parks) (mapbox_layers (layout fg)))\<rparr>\<rparr>"
  by (simp add: add_park_outlines_layer_def add_trace_def Let_def update_with_park_overlay)

text \<open>
  Claim C7, as the code has it.  The outline builder is called on a figure that holds one
  trace and one overlay.  It adds its legend trace, but the layout holds one overlay after
  the call as it did before: the overlay that was there has been turned into the park
  overlay, and no registration has been added to it.
\<close>

theorem outline_overlay_not_added_counterexample:
  "mapbox_layers (layout (add_park_outlines_layer river_figure (GeoJSON ''parks'') ''Park outlines'')) =
     [park_overlay (GeoJSON ''parks'')] \<and>
   length (mapbox_layers (layout (add_park_outlines_layer river_figure (GeoJSON ''parks'')
     ''Park outlines''))) \<noteq> length (mapbox_layers (layout river_figure)) + 1 \<and>
   park_overlay (GeoJSON ''rivers'') \<notin> set (mapbox_layers (layout (add_park_outlines_layer
     river_figure (GeoJSON ''parks'') ''Park outlines'')))"
  by (simp add: add_park_outlines_layer_eq river_figure_def empty_layout_def park_overlay_def)

text \<open>
  Claim C7, amended.  Called with a valid table (the required columns are there; for the
  houses the price column is not the column \<open>hover_text\<close> and is numeric with a maximum
  above its minimum and a range computed without overflow; for the schools the
  description column is text), the house, region and school builders raise nothing and
  leave the figure with its traces as they were, in their order, followed by exactly one
  new trace; the layout is as before.  The outline builder adds exactly its legend trace
  after the traces that were there and leaves the rest of the layout as it was.  On a
  figure that holds no overlay it registers exactly one overlay, the park overlay; on a
  figure that holds overlays it adds none and turns each of them into the park overlay.
\<close>

theorem builders_append_exactly_one_layer:
  assumes houses: "set [pc, qc, bc, la, lo] \<subseteq> set (columns dfh)" "pc \<noteq> ''hover_text''"
      "map_of dfh pc = Some pcol"
      "pcol = FloatCol (map Fin rs) \<and> (\<forall>r \<in> set rs. is_f64 r) \<and>
         Max (set rs) - Min (set rs) \<le> f64_max \<or>
       pcol = IntCol ns \<and> rs = map rat_of_int ns \<and> Max (set ns) - Min (set ns) < 2 ^ 63"
      "rs \<noteq> []" "Min (set rs) < Max (set rs)"
    and region: "set [zc, hq] \<subseteq> set (columns dfc)"
    and schools: "set [sla, slo, snc, sdc] \<subseteq> set (columns dfs)" "map_of dfs sdc = Some (StrCol ds)"
  shows "(\<exists>df' t. plotting_houses repr dfh fg pc qc bc la lo le = (None, df', fg\<lparr>data := data fg @ [t]\<rparr>)) \<and>
         (\<exists>df' t. add_choropleth_map repr dfc fg g zc hq le = (None, df', fg\<lparr>data := data fg @ [t]\<rparr>)) \<and>
         (\<exists>df' t. add_schools_layer repr fg dfs sla slo snc sdc le = (None, df', fg\<lparr>data := data fg @ [t]\<rparr>)) \<and>
         data (add_park_outlines_layer fg parks le) = data fg @ [park_legend_trace le] \<and>
         (layout (add_park_outlines_layer fg parks le))\<lparr>mapbox_layers := mapbox_layers (layout fg)\<rparr> =
           layout fg \<and>
         (mapbox_layers (layout fg) = [] \<longrightarrow>
            mapbox_layers (layout (add_park_outlines_layer fg parks le)) = [park_overlay parks]) \<and>
         (mapbox_layers (layout fg) \<noteq> [] \<longrightarrow>
            mapbox_layers (layout (add_park_outlines_layer fg parks le)) =
              map (\<lambda>l. park_overlay parks) (mapbox_layers (layout fg)))"
proof (intro conjI)
  show "\<exists>df' t. plotting_houses repr dfh fg pc qc bc la lo le = (None, df', fg\<lparr>data := data fg @ [t]\<rparr>)"
    using plotting_houses_valid [OF houses, of repr fg le] unfolding add_trace_def by blast
  show "\<exists>df' t. add_choropleth_map repr dfc fg g zc hq le = (None, df', fg\<lparr>data := data fg @ [t]\<rparr>)"
    using add_choropleth_map_valid [OF region, of repr fg g le] unfolding add_trace_def by blast
  show "\<exists>df' t. add_schools_layer repr fg dfs sla slo snc sdc le = (None, df', fg\<lparr>data := data fg @ [t]\<rparr>)"
    using add_schools_layer_valid [OF schools, of repr fg le] unfolding add_trace_def by blast
qed (simp_all add: add_park_outlines_layer_eq)

theorem builders_append_exactly_one_layer_witness:
  "(\<exists>df' t. plotting_houses repr_whole three_houses river_figure ''price'' ''house_quality''
       ''bedrooms'' ''lat'' ''long'' ''Houses'' =
       (None, df', river_figure\<lparr>data := data river_figure @ [t]\<rparr>)) \<and>
   (\<exists>df' t. add_choropleth_map repr_whole two_regions river_figure (GeoJSON ''zip codes'')
       ''zipcode'' ''house_quality'' ''Houses'' =
       (None, df', river_figure\<lparr>data := data river_figure @ [t]\<rparr>)) \<and>
   (\<exists>df' t. add_schools_layer repr_whole river_figure two_schools ''LAT_CEN'' ''LONG_CEN''
       ''ABB_NAME'' ''FEATUREDES'' ''Houses'' =
       (None, df', river_figure\<lparr>data := data river_figure @ [t]\<rparr>)) \<and>
   data (add_park_outlines_layer river_figure (GeoJSON ''parks'') ''Houses'') =
     [park_legend_trace ''Rivers'', park_legend_trace ''Houses''] \<and>
   mapbox_layers (layout (add_park_outlines_layer river_figure (GeoJSON ''parks'') ''Houses'')) =
     [park_overlay (GeoJSON ''parks'')] \<and>
   mapbox_layers (layout (add_park_outlines_layer (add_trace Figure (park_legend_trace ''Rivers''))
     (GeoJSON ''parks'') ''Houses'')) = [park_overlay (GeoJSON ''parks'')]"
  using builders_append_exactly_one_layer
    [where pc = "''price''" and qc = "''house_quality''" and bc = "''bedrooms''" and la = "''lat''"
       and lo = "''long''" and dfh = three_houses and pcol = "IntCol [100, 200, 300]"
       and rs = "[100, 200, 300]" and ns = "[100, 200, 300]" and zc = "''zipcode''"
       and hq = "''house_quality''" and dfc = two_regions and sla = "''LAT_CEN''"
       and slo = "''LONG_CEN''" and snc = "''ABB_NAME''" and sdc = "''FEATUREDES''"
       and dfs = two_schools and ds = "[''School-Elementary'', ''school-High '']"
       and repr = repr_whole and fg = river_figure and le = "''Houses''"
       and g = "GeoJSON ''zip codes''" and parks = "GeoJSON ''parks''"]
    builders_append_exactly_one_layer
    [where pc = "''price''" and qc = "''house_quality''" and bc = "''bedrooms''" and la = "''lat''"
       and lo = "''long''" and dfh = three_houses and pcol = "IntCol [100, 200, 300]"
       and rs = "[100, 200, 300]" and ns = "[100, 200, 300]" and zc = "''zipcode''"
       and hq = "''house_quality''" and dfc = two_regions and sla = "''LAT_CEN''"
       and slo = "''LONG_CEN''" and snc = "''ABB_NAME''" and sdc = "''FEATUREDES''"
       and dfs = two_schools and ds = "[''School-Elementary'', ''school-High '']"
       and repr = repr_whole and fg = "add_trace Figure (park_legend_trace ''Rivers'')"
       and le = "''Houses''" and g = "GeoJSON ''zip codes''" and parks = "GeoJSON ''parks''"]
  by (simp add: three_houses_def two_regions_def two_schools_def columns_def river_figure_def
      Figure_def empty_layout_def add_trace_def)

text \<open>
  The check of the house and region builders: when one of the required columns is absent
  and the others are there, the check raises the \<open>ValueError\<close> that names it, and the call
  ends with the table and the figure as they were.
\<close>

lemma check_required_one_missing:
  assumes "c \<in> set cs" and "c \<notin> set (columns df)"
    and "\<forall>c' \<in> set cs. c' \<noteq> c \<longrightarrow> c' \<in> set (columns df)"
  shows "check_required df cs = Some (ValueError (''Missing required column: '' @ c))"
  using assms by (induction cs) auto

lemma plotting_houses_missing_column:
  assumes "c \<in> set [pc, qc, bc, la, lo]" and "c \<notin> set (columns df)"
    and "\<forall>c' \<in> set [pc, qc, bc, la, lo]. c' \<noteq> c \<longrightarrow> c' \<in> set (columns df)"
  shows "plotting_houses repr df fg pc qc bc la lo le =
           (Some (ValueError (''Missing required column: '' @ c)), df, fg)"
  unfolding plotting_houses_def check_required_one_missing [OF assms] by simp

lemma add_choropleth_map_missing_column:
  assumes "c \<in> set [zc, hq]" and "c \<notin> set (columns df)"
    and "\<forall>c' \<in> set [zc, hq]. c' \<noteq> c \<longrightarrow> c' \<in> set (columns df)"
  shows "add_choropleth_map repr df fg g zc hq le =
           (Some (ValueError (''Missing required column: '' @ c)), df, fg)"
  unfolding add_choropleth_map_def check_required_one_missing [OF assms] by simp

text \<open>
  Claim C1.  The school builder has no such check.  On a table without its latitude
  column the builder first writes \<open>hover_text\<close> onto the table; the absent column is then
  met by the lookup \<open>gdf_schools[lat_col]\<close>.  When the latitude is to be read from a column
  named \<open>hover_text\<close>, which the table does not have, the lookup finds the column just
  written: nothing is raised and a trace is added.  With the default name \<open>LAT_CEN\<close> the
  lookup raises pandas' \<open>KeyError\<close>, not the builders' \<open>ValueError\<close>, and the figure is as
  before.
\<close>

theorem schools_layer_without_validation:
  "add_schools_layer repr_whole Figure two_schools_no_lat ''hover_text'' ''LONG_CEN'' ''ABB_NAME''
      ''FEATUREDES'' ''Schools'' =
     (None,
      two_schools_no_lat @ [(''hover_text'', StrCol [''Adams<br>Elementary'', ''Lowell<br>High''])],
      Figure\<lparr>data :=
        [Scattermapbox
          \<lparr>sm_lat = Series (StrCol [''Adams<br>Elementary'', ''Lowell<br>High'']),
           sm_lon = Series (FloatCol [Fin (- 122), Fin (- 243 / 2)]), sm_mode = ''markers'',
           sm_marker = Some schools_marker, sm_line = None,
           sm_text = Some (StrCol [''Adams<br>Elementary'', ''Lowell<br>High'']),
           sm_hoverinfo = Some ''text'', sm_name = ''Schools'', sm_showlegend = True\<rparr>]\<rparr>) \<and>
   add_schools_layer repr_whole Figure two_schools_no_lat ''LAT_CEN'' ''LONG_CEN'' ''ABB_NAME''
      ''FEATUREDES'' ''Schools'' =
     (Some (KeyError ''LAT_CEN''),
      two_schools_no_lat @ [(''hover_text'', StrCol [''Adams<br>Elementary'', ''Lowell<br>High''])],
      Figure)"
  by code_simp

lemma round64_300: "round64 300 = Fin 300"
  by (rule round64_exact [where k = 8 and n = "300 * 2 ^ 44"]) (simp_all add: power_int_minus field_simps)

lemma round_mag_of_round64: "round64 r = Fin r \<Longrightarrow> 0 \<le> r \<Longrightarrow> round_mag r = r"
  by (cases "r = 0") (simp_all add: round64_def split: if_splits)

lemma encoded_100_300:
  "encoded 100 300 100 = 0" "encoded 100 300 200 = 1 / 2" "encoded 100 300 300 = 1"
  using round_mag_of_round64 [OF round64_values(8)] round_mag_of_round64 [OF round64_values(9)]
    round_mag_of_round64 [OF round64_values(3)]
  by (simp_all add: encoded_def)

text \<open>The sizes of the prices 100, 200, 300, step by step.\<close>

lemma sizes_100_200_300:
  assumes "pcol = IntCol [100, 200, 300] \<or> pcol = FloatCol [Fin 100, Fin 200, Fin 300]"
  shows "normalize_column pcol = Inr (FloatCol [Fin 0, Fin (1 / 2), Fin 1])"
    and "col_add (FloatCol [Fin 0, Fin (1 / 2), Fin 1]) 1 = Inr (FloatCol [Fin 1, Fin (3 / 2), Fin 2])"
    and "col_mul (FloatCol [Fin 1, Fin (3 / 2), Fin 2]) 10 = Inr (FloatCol [Fin 10, Fin 15, Fin 20])"
    and "valid_size (FloatCol [Fin 10, Fin 15, Fin 20])"
proof -
  have "200 \<le> power_int (2::rat) 8" by simp
  then have le: "(200::rat) \<le> f64_max" using pow2_le_f64_max [of 8] by linarith
  have num: "pcol = FloatCol (map Fin [100, 200, 300]) \<and> (\<forall>r \<in> set [100, 200, 300]. is_f64 r) \<and>
               Max (set [100, 200, 300 :: rat]) - Min (set [100, 200, 300]) \<le> f64_max \<or>
             pcol = IntCol [100, 200, 300] \<and> [100, 200, 300] = map rat_of_int [100, 200, 300] \<and>
               Max (set [100, 200, 300 :: int]) - Min (set [100, 200, 300]) < 2 ^ 63"
    using assms le by (auto simp: is_f64_def round64_values round64_300)
  have rng: "[100, 200, 300 :: rat] \<noteq> []" "Min (set [100, 200, 300 :: rat]) < Max (set [100, 200, 300])"
    by simp_all
  show "normalize_column pcol = Inr (FloatCol [Fin 0, Fin (1 / 2), Fin 1])"
    using normalize_column_encoded [OF num rng] by (simp add: encoded_100_300)
  show "col_add (FloatCol [Fin 0, Fin (1 / 2), Fin 1]) 1 = Inr (FloatCol [Fin 1, Fin (3 / 2), Fin 2])"
    by (simp add: round64_values)
  show "col_mul (FloatCol [Fin 1, Fin (3 / 2), Fin 2]) 10 = Inr (FloatCol [Fin 10, Fin 15, Fin 20])"
    by (simp add: round64_values)
  show "valid_size (FloatCol [Fin 10, Fin 15, Fin 20])" by simp
qed

lemma houses_100_200_300:
  assumes "set [pc, qc, bc, la, lo] \<subseteq> set (columns df)" and "pc \<noteq> ''hover_text''"
    and "map_of df pc = Some pcol"
    and "pcol = IntCol [100, 200, 300] \<or> pcol = FloatCol [Fin 100, Fin 200, Fin 300]"
  shows "\<exists>hover lacol locol. houses_hover_text repr df pc qc bc = Inr hover \<and>
           plotting_houses repr df fg pc qc bc la lo le =
           (None, setitem df ''hover_text'' (StrCol hover),
            add_trace fg (Scattermapbox
              \<lparr>sm_lat = Series lacol, sm_lon = Series locol, sm_mode = ''markers'',
               sm_marker = Some \<lparr>marker_size = SizeSeries (FloatCol [Fin 10, Fin 15, Fin 20]),
                 marker_color = ''blue'', marker_opacity = None, marker_symbol = None\<rparr>,
               sm_line = None, sm_text = Some (StrCol hover), sm_hoverinfo = Some ''text'',
               sm_name = le, sm_showlegend = True\<rparr>))"
proof -
  from assms(4) have "pcol = FloatCol (map Fin [100, 200, 300]) \<or> pcol = IntCol [100, 200, 300]"
    by auto
  then obtain pint where cast: "astype_int pcol = Inr pint" using astype_int_numeric by blast
  show ?thesis
    by (rule plotting_houses_succeeds [OF assms(1-3) cast sizes_100_200_300 [OF assms(4)]])
qed

text \<open>The hover text of the example table of three houses.\<close>

lemma three_houses_hover_text:
  "houses_hover_text repr_whole three_houses ''price'' ''house_quality'' ''bedrooms'' =
     Inr [''Price: 100$<br>Quality: 3<br>Bedrooms: 2'', ''Price: 200$<br>Quality: 4<br>Bedrooms: 3'',
          ''Price: 300$<br>Quality: 5<br>Bedrooms: 4'']"
  by code_simp

lemma three_houses_plotted:
  "\<exists>lacol locol. plotting_houses repr_whole three_houses fg ''price'' ''house_quality'' ''bedrooms''
       ''lat'' ''long'' le =
     (None,
      three_houses @ [(''hover_text'', StrCol [''Price: 100$<br>Quality: 3<br>Bedrooms: 2'',
        ''Price: 200$<br>Quality: 4<br>Bedrooms: 3'', ''Price: 300$<br>Quality: 5<br>Bedrooms: 4''])],
      add_trace fg (Scattermapbox
        \<lparr>sm_lat = Series lacol, sm_lon = Series locol, sm_mode = ''markers'',
         sm_marker = Some \<lparr>marker_size = SizeSeries (FloatCol [Fin 10, Fin 15, Fin 20]),
           marker_color = ''blue'', marker_opacity = None, marker_symbol = None\<rparr>,
         sm_line = None,
         sm_text = Some (StrCol [''Price: 100$<br>Quality: 3<br>Bedrooms: 2'',
           ''Price: 200$<br>Quality: 4<br>Bedrooms: 3'', ''Price: 300$<br>Quality: 5<br>Bedrooms: 4'']),
         sm_hoverinfo = Some ''text'', sm_name = le, sm_showlegend = True\<rparr>))"
proof -
  have s: "setitem three_houses ''hover_text'' c = three_houses @ [(''hover_text'', c)]" for c
    by (simp add: setitem_def three_houses_def)
  show ?thesis
    using houses_100_200_300 [where pc = "''price''" and qc = "''house_quality''"
        and bc = "''bedrooms''" and la = "''lat''" and lo = "''long''" and df = three_houses
        and pcol = "IntCol [100, 200, 300]" and repr = repr_whole and fg = fg and le = le]
    unfolding three_houses_hover_text s
    by (simp add: three_houses_def columns_def)
qed

text \<open>
  Claim C2, as the code has it.  The encoder sends the prices 100, 200, 300 to 0, 1/2, 1;
  shifted by 1 and scaled by 10 the marker sizes are 10, 15, 20.  First the run on the
  example table, whose sizes are not 10, 20, 30.
\<close>

theorem house_marker_sizes_counterexample:
  "map marker_sizes (data (snd (snd (plotting_houses repr_whole three_houses Figure ''price''
      ''house_quality'' ''bedrooms'' ''lat'' ''long'' legend_houses)))) =
     [Some (SizeSeries (FloatCol [Fin 10, Fin 15, Fin 20]))] \<and>
   map marker_sizes (data (snd (snd (plotting_houses repr_whole three_houses Figure ''price''
      ''house_quality'' ''bedrooms'' ''lat'' ''long'' legend_houses)))) \<noteq>
     [Some (SizeSeries (FloatCol [Fin 10, Fin 20, Fin 30]))]"
  using three_houses_plotted [of Figure legend_houses]
  by (auto simp: add_trace_def Figure_def)

text \<open>
  Claim C2, amended.  For every table that has the required columns and whose price
  column, not named \<open>hover_text\<close>, holds exactly 100, 200, 300, the house builder raises
  nothing and adds one trace, whose marker sizes are exactly 10, 15, 20 for the three rows.
\<close>

theorem house_marker_sizes_100_200_300:
  assumes "set [pc, qc, bc, la, lo] \<subseteq> set (columns df)" and "pc \<noteq> ''hover_text''"
    and "map_of df pc = Some pcol"
    and "pcol = IntCol [100, 200, 300] \<or> pcol = FloatCol [Fin 100, Fin 200, Fin 300]"
  shows "\<exists>df' t. plotting_houses repr df fg pc qc bc la lo le = (None, df', add_trace fg t) \<and>
           marker_sizes t = Some (SizeSeries (FloatCol [Fin 10, Fin 15, Fin 20]))"
proof -
  from houses_100_200_300 [OF assms, where repr = repr and fg = fg and le = le]
  obtain hover lacol locol where
    "plotting_houses repr df fg pc qc bc la lo le =
       (None, setitem df ''hover_text'' (StrCol hover),
        add_trace fg (Scattermapbox
          \<lparr>sm_lat = Series lacol, sm_lon = Series locol, sm_mode = ''markers'',
           sm_marker = Some \<lparr>marker_size = SizeSeries (FloatCol [Fin 10, Fin 15, Fin 20]),
             marker_color = ''blue'', marker_opacity = None, marker_symbol = None\<rparr>,
           sm_line = None, sm_text = Some (StrCol hover), sm_hoverinfo = Some ''text'',
           sm_name = le, sm_showlegend = True\<rparr>))"
    by blast
  then show ?thesis by force
qed

theorem house_marker_sizes_100_200_300_witness:
  "\<exists>df' t. plotting_houses repr_whole three_houses Figure ''price'' ''house_quality'' ''bedrooms''
       ''lat'' ''long'' legend_houses = (None, df', add_trace Figure t) \<and>
     marker_sizes t = Some (SizeSeries (FloatCol [Fin 10, Fin 15, Fin 20]))"
  using house_marker_sizes_100_200_300 [of "''price''" "''house_quality''" "''bedrooms''" "''lat''" "''long''"
     three_houses "IntCol [100, 200, 300]" repr_whole Figure legend_houses]
  by (simp add: three_houses_def columns_def)

text \<open>
  Claim C5, as the code has it.  The house builder returns with the caller's table
  changed: the column \<open>hover_text\<close> has been added to it.
\<close>

theorem builders_write_hover_text_counterexample:
  "fst (snd (plotting_houses repr_whole three_houses Figure ''price'' ''house_quality'' ''bedrooms''
      ''lat'' ''long'' legend_houses)) =
     three_houses @ [(''hover_text'', StrCol [''Price: 100$<br>Quality: 3<br>Bedrooms: 2'',
       ''Price: 200$<br>Quality: 4<br>Bedrooms: 3'', ''Price: 300$<br>Quality: 5<br>Bedrooms: 4''])] \<and>
   fst (snd (plotting_houses repr_whole three_houses Figure ''price'' ''house_quality'' ''bedrooms''
      ''lat'' ''long'' legend_houses)) \<noteq> three_houses"
  using three_houses_plotted [of Figure legend_houses] by auto

lemma ebind_eq_Inr: "ebind m f = Inr y \<longleftrightarrow> (\<exists>x. m = Inr x \<and> f x = Inr y)"
  by (cases m) simp_all

text \<open>
  The text of the trace is the column \<open>hover_text\<close> of the table the trace is built from;
  the traces of houses and schools are point traces.
\<close>

lemma houses_trace_text:
  "houses_trace (setitem df ''hover_text'' c) pc la lo le = Inr t \<Longrightarrow>
     trace_text t = Some c \<and> \<not> is_region_trace t"
  by (auto simp: houses_trace_def ebind_eq_Inr getitem_setitem_same)

lemma choropleth_trace_text:
  "choropleth_trace (setitem df ''hover_text'' c) g zc hq le = Inr t \<Longrightarrow> trace_text t = Some c"
  by (auto simp: choropleth_trace_def ebind_eq_Inr getitem_setitem_same)

lemma schools_trace_text:
  "schools_trace (setitem df ''hover_text'' c) la lo le = Inr t \<Longrightarrow>
     trace_text t = Some c \<and> \<not> is_region_trace t"
  by (auto simp: schools_trace_def ebind_eq_Inr getitem_setitem_same)

text \<open>
  What a table builder returns: either it raises before it has written anything, or it
  has written its hover text onto the table; then it raises with the figure as it was, or
  it adds one trace, which it has built from the table as written.
\<close>

lemma plotting_houses_outcome:
  "(\<exists>e. plotting_houses repr df fg pc qc bc la lo le = (Some e, df, fg)) \<or>
   (\<exists>h. houses_hover_text repr df pc qc bc = Inr h \<and>
      ((\<exists>e. plotting_houses repr df fg pc qc bc la lo le =
           (Some e, setitem df ''hover_text'' (StrCol h), fg)) \<or>
       (\<exists>t. trace_text t = Some (StrCol h) \<and> \<not> is_region_trace t \<and>
          plotting_houses repr df fg pc qc bc la lo le =
            (None, setitem df ''hover_text'' (StrCol h), add_trace fg t))))"
proof (cases "check_required df [pc, qc, bc, la, lo]")
  case (Some e)
  then show ?thesis by (simp add: plotting_houses_def)
next
  case None
  show ?thesis
  proof (cases "houses_hover_text repr df pc qc bc")
    case (Inl e)
    with None show ?thesis by (simp add: plotting_houses_def)
  next
    case h: (Inr h)
    show ?thesis
    proof (cases "houses_trace (setitem df ''hover_text'' (StrCol h)) pc la lo le")
      case (Inl e)
      with None h show ?thesis by (simp add: plotting_houses_def)
    next
      case t: (Inr t)
      have "trace_text t = Some (StrCol h) \<and> \<not> is_region_trace t" by (rule houses_trace_text [OF t])
      with None h t show ?thesis by (simp add: plotting_houses_def) blast
    qed
  qed
qed

lemma add_choropleth_map_outcome:
  "(\<exists>e. add_choropleth_map repr df fg g zc hq le = (Some e, df, fg)) \<or>
   (\<exists>h. choropleth_hover_text repr df zc hq = Inr h \<and>
      ((\<exists>e. add_choropleth_map repr df fg g zc hq le =
           (Some e, setitem df ''hover_text'' (StrCol h), fg)) \<or>
       (\<exists>t. trace_text t = Some (StrCol h) \<and>
          add_choropleth_map repr df fg g zc hq le =
            (None, setitem df ''hover_text'' (StrCol h), add_trace fg t))))"
proof (cases "check_required df [zc, hq]")
  case (Some e)
  then show ?thesis by (simp add: add_choropleth_map_def)
next
  case None
  show ?thesis
  proof (cases "choropleth_hover_text repr df zc hq")
    case (Inl e)
    with None show ?thesis by (simp add: add_choropleth_map_def)
  next
    case h: (Inr h)
    show ?thesis
    proof (cases "choropleth_trace (setitem df ''hover_text'' (StrCol h)) g zc hq le")
      case (Inl e)
      with None h show ?thesis by (simp add: add_choropleth_map_def)
    next
      case t: (Inr t)
      have "trace_text t = Some (StrCol h)" by (rule choropleth_trace_text [OF t])
      with None h t show ?thesis by (simp add: add_choropleth_map_def) blast
    qed
  qed
qed

lemma add_schools_layer_outcome:
  "(\<exists>e. add_schools_layer repr fg df la lo nc dc le = (Some e, df, fg)) \<or>
   (\<exists>h. schools_hover_text repr df nc dc = Inr h \<and>
      ((\<exists>e. add_schools_layer repr fg df la lo nc dc le =
           (Some e, setitem df ''hover_text'' (StrCol h), fg)) \<or>
       (\<exists>t. trace_text t = Some (StrCol h) \<and> \<not> is_region_trace t \<and>
          add_schools_layer repr fg df la lo nc dc le =
            (None, setitem df ''hover_text'' (StrCol h), add_trace fg t))))"
proof -
  show ?thesis
  proof (cases "schools_hover_text repr df nc dc")
    case (Inl e)
    then show ?thesis by (simp add: add_schools_layer_def)
  next
    case h: (Inr h)
    show ?thesis
    proof (cases "schools_trace (setitem df ''hover_text'' (StrCol h)) la lo le")
      case (Inl e)
      with h show ?thesis by (simp add: add_schools_layer_def)
    next
      case t: (Inr t)
      have "trace_text t = Some (StrCol h) \<and> \<not> is_region_trace t" by (rule schools_trace_text [OF t])
      with h t show ?thesis by (simp add: add_schools_layer_def) blast
    qed
  qed
qed

text \<open>
  Claim C5, amended.  The three builders that take a table write at most one column onto
  it, \<open>hover_text\<close>: every other column of the caller's table is read after the call as it
  was before.  A call that raises nothing leaves the table with \<open>hover_text\<close> set to the
  hover text the builder derives from the table as it was passed (in place of a column of
  that name, or as a new last column), and the figure with one more trace, whose text is
  that written column.  A call that raises leaves the figure as it was, and the table
  either as it was or with that \<open>hover_text\<close> written.  The outline builder takes no table.
\<close>

theorem builders_write_only_hover_text:
  "(case plotting_houses repr df fg pc qc bc la lo le of (e, df', fg') \<Rightarrow>
      (\<forall>c. c \<noteq> ''hover_text'' \<longrightarrow> map_of df' c = map_of df c) \<and>
      (e = None \<longrightarrow> (\<exists>h t. houses_hover_text repr df pc qc bc = Inr h \<and>
         df' = setitem df ''hover_text'' (StrCol h) \<and> fg' = add_trace fg t \<and>
         trace_text t = Some (StrCol h) \<and> map_of df' ''hover_text'' = trace_text t)) \<and>
      (e \<noteq> None \<longrightarrow> fg' = fg \<and> (df' = df \<or> (\<exists>h. houses_hover_text repr df pc qc bc = Inr h \<and>
         df' = setitem df ''hover_text'' (StrCol h))))) \<and>
   (case add_choropleth_map repr df fg g zc hq le of (e, df', fg') \<Rightarrow>
      (\<forall>c. c \<noteq> ''hover_text'' \<longrightarrow> map_of df' c = map_of df c) \<and>
      (e = None \<longrightarrow> (\<exists>h t. choropleth_hover_text repr df zc hq = Inr h \<and>
         df' = setitem df ''hover_text'' (StrCol h) \<and> fg' = add_trace fg t \<and>
         trace_text t = Some (StrCol h) \<and> map_of df' ''hover_text'' = trace_text t)) \<and>
      (e \<noteq> None \<longrightarrow> fg' = fg \<and> (df' = df \<or> (\<exists>h. choropleth_hover_text repr df zc hq = Inr h \<and>
         df' = setitem df ''hover_text'' (StrCol h))))) \<and>
   (case add_schools_layer repr fg df sla slo snc sdc le of (e, df', fg') \<Rightarrow>
      (\<forall>c. c \<noteq> ''hover_text'' \<longrightarrow> map_of df' c = map_of df c) \<and>
      (e = None \<longrightarrow> (\<exists>h t. schools_hover_text repr df snc sdc = Inr h \<and>
         df' = setitem df ''hover_text'' (StrCol h) \<and> fg' = add_trace fg t \<and>
         trace_text t = Some (StrCol h) \<and> map_of df' ''hover_text'' = trace_text t)) \<and>
      (e \<noteq> None \<longrightarrow> fg' = fg \<and> (df' = df \<or> (\<exists>h. schools_hover_text repr df snc sdc = Inr h \<and>
         df' = setitem df ''hover_text'' (StrCol h)))))"
proof (intro conjI)
  show "case plotting_houses repr df fg pc qc bc la lo le of (e, df', fg') \<Rightarrow>
      (\<forall>c. c \<noteq> ''hover_text'' \<longrightarrow> map_of df' c = map_of df c) \<and>
      (e = None \<longrightarrow> (\<exists>h t. houses_hover_text repr df pc qc bc = Inr h \<and>
         df' = setitem df ''hover_text'' (StrCol h) \<and> fg' = add_trace fg t \<and>
         trace_text t = Some (StrCol h) \<and> map_of df' ''hover_text'' = trace_text t)) \<and>
      (e \<noteq> None \<longrightarrow> fg' = fg \<and> (df' = df \<or> (\<exists>h. houses_hover_text repr df pc qc bc = Inr h \<and>
         df' = setitem df ''hover_text'' (StrCol h))))"
  proof -
    from plotting_houses_outcome [of repr df fg pc qc bc la lo le] consider
        (raised) e where "plotting_houses repr df fg pc qc bc la lo le = (Some e, df, fg)"
      | (written) h e where "houses_hover_text repr df pc qc bc = Inr h"
          "plotting_houses repr df fg pc qc bc la lo le = (Some e, setitem df ''hover_text'' (StrCol h), fg)"
      | (added) h t where "houses_hover_text repr df pc qc bc = Inr h" "trace_text t = Some (StrCol h)"
          "plotting_houses repr df fg pc qc bc la lo le = (None, setitem df ''hover_text'' (StrCol h), add_trace fg t)"
      by blast
    then show ?thesis
    proof cases
      case raised
      then show ?thesis by simp
    next
      case written
      then show ?thesis by (simp add: map_of_setitem)
    next
      case added
      then show ?thesis by (simp add: map_of_setitem) (rule exI [of _ t], simp)
    qed
  qed
  show "case add_choropleth_map repr df fg g zc hq le of (e, df', fg') \<Rightarrow>
      (\<forall>c. c \<noteq> ''hover_text'' \<longrightarrow> map_of df' c = map_of df c) \<and>
      (e = None \<longrightarrow> (\<exists>h t. choropleth_hover_text repr df zc hq = Inr h \<and>
         df' = setitem df ''hover_text'' (StrCol h) \<and> fg' = add_trace fg t \<and>
         trace_text t = Some (StrCol h) \<and> map_of df' ''hover_text'' = trace_text t)) \<and>
      (e \<noteq> None \<longrightarrow> fg' = fg \<and> (df' = df \<or> (\<exists>h. choropleth_hover_text repr df zc hq = Inr h \<and>
         df' = setitem df ''hover_text'' (StrCol h))))"
  proof -
    from add_choropleth_map_outcome [of repr df fg g zc hq le] consider
        (raised) e where "add_choropleth_map repr df fg g zc hq le = (Some e, df, fg)"
      | (written) h e where "choropleth_hover_text repr df zc hq = Inr h"
          "add_choropleth_map repr df fg g zc hq le = (Some e, setitem df ''hover_text'' (StrCol h), fg)"
      | (added) h t where "choropleth_hover_text repr df zc hq = Inr h" "trace_text t = Some (StrCol h)"
          "add_choropleth_map repr df fg g zc hq le = (None, setitem df ''hover_text'' (StrCol h), add_trace fg t)"
      by blast
    then show ?thesis
    proof cases
      case raised
      then show ?thesis by simp
    next
      case written
      then show ?thesis by (simp add: map_of_setitem)
    next
      case added
      then show ?thesis by (simp add: map_of_setitem) (rule exI [of _ t], simp)
    qed
  qed
  show "case add_schools_layer repr fg df sla slo snc sdc le of (e, df', fg') \<Rightarrow>
      (\<forall>c. c \<noteq> ''hover_text'' \<longrightarrow> map_of df' c = map_of df c) \<and>
      (e = None \<longrightarrow> (\<exists>h t. schools_hover_text repr df snc sdc = Inr h \<and>
         df' = setitem df ''hover_text'' (StrCol h) \<and> fg' = add_trace fg t \<and>
         trace_text t = Some (StrCol h) \<and> map_of df' ''hover_text'' = trace_text t)) \<and>
      (e \<noteq> None \<longrightarrow> fg' = fg \<and> (df' = df \<or> (\<exists>h. schools_hover_text repr df snc sdc = Inr h \<and>
         df' = setitem df ''hover_text'' (StrCol h))))"
  proof -
    from add_schools_layer_outcome [of repr fg df sla slo snc sdc le] consider
        (raised) e where "add_schools_layer repr fg df sla slo snc sdc le = (Some e, df, fg)"
      | (written) h e where "schools_hover_text repr df snc sdc = Inr h"
          "add_schools_layer repr fg df sla slo snc sdc le = (Some e, setitem df ''hover_text'' (StrCol h), fg)"
      | (added) h t where "schools_hover_text repr df snc sdc = Inr h" "trace_text t = Some (StrCol h)"
          "add_schools_layer repr fg df sla slo snc sdc le = (None, setitem df ''hover_text'' (StrCol h), add_trace fg t)"
      by blast
    then show ?thesis
    proof cases
      case raised
      then show ?thesis by simp
    next
      case written
      then show ?thesis by (simp add: map_of_setitem)
    next
      case added
      then show ?thesis by (simp add: map_of_setitem) (rule exI [of _ t], simp)
    qed
  qed
qed

theorem builders_write_only_hover_text_witness:
  "fst (plotting_houses repr_whole three_houses Figure ''price'' ''house_quality'' ''bedrooms''
      ''lat'' ''long'' legend_houses) = None \<and>
   map_of (fst (snd (plotting_houses repr_whole three_houses Figure ''price'' ''house_quality''
      ''bedrooms'' ''lat'' ''long'' legend_houses))) ''price'' = Some (IntCol [100, 200, 300]) \<and>
   map_of (fst (snd (plotting_houses repr_whole three_houses Figure ''price'' ''house_quality''
      ''bedrooms'' ''lat'' ''long'' legend_houses))) ''hover_text'' =
     Some (StrCol [''Price: 100$<br>Quality: 3<br>Bedrooms: 2'',
       ''Price: 200$<br>Quality: 4<br>Bedrooms: 3'', ''Price: 300$<br>Quality: 5<br>Bedrooms: 4'']) \<and>
   (\<exists>t. snd (snd (plotting_houses repr_whole three_houses Figure ''price'' ''house_quality''
      ''bedrooms'' ''lat'' ''long'' legend_houses)) = add_trace Figure t \<and>
      trace_text t = Some (StrCol [''Price: 100$<br>Quality: 3<br>Bedrooms: 2'',
       ''Price: 200$<br>Quality: 4<br>Bedrooms: 3'', ''Price: 300$<br>Quality: 5<br>Bedrooms: 4'']))"
proof -
  from three_houses_plotted [of Figure legend_houses]
  obtain df' fg' where r: "plotting_houses repr_whole three_houses Figure ''price''
      ''house_quality'' ''bedrooms'' ''lat'' ''long'' legend_houses = (None, df', fg')"
    by blast
  have p: "map_of three_houses ''price'' = Some (IntCol [100, 200, 300])"
    by (simp add: three_houses_def)
  show ?thesis
    using builders_write_only_hover_text [where repr = repr_whole and df = three_houses
        and fg = Figure and pc = "''price''" and qc = "''house_quality''" and bc = "''bedrooms''"
        and la = "''lat''" and lo = "''long''" and le = legend_houses
        and g = "GeoJSON ''zip codes''" and zc = "''zipcode''" and hq = "''house_quality''"
        and sla = "''LAT_CEN''" and slo = "''LONG_CEN''" and snc = "''ABB_NAME''"
        and sdc = "''FEATUREDES''"]
    unfolding r three_houses_hover_text
    by (auto simp: p map_of_setitem)
qed

section \<open>Properties of the Layout Finalizer and of the overlay\<close>

text \<open>
  Claim C8.  The Layout Finalizer is idempotent: for every figure, centre and style, a
  second call with the same arguments leaves the figure, and so the style, zoom, centre,
  margins, legend, width and height of its layout, as the first call left them.
\<close>

theorem update_map_layout_idempotent:
  "update_map_layout (update_map_layout fg lat lon style) lat lon style =
     update_map_layout fg lat lon style"
  by (simp add: update_map_layout_def)

text \<open>
  Claim C10, as the code has it.  The layout update of the outline builder is merged into
  the overlays that are there.  On a figure with two overlays the call leaves two entries,
  both turned into the park overlay, not one.
\<close>

theorem park_overlay_count_counterexample:
  "mapbox_layers (layout (add_park_outlines_layer two_overlays (GeoJSON ''parks'') ''Park outlines'')) =
     [park_overlay (GeoJSON ''parks''), park_overlay (GeoJSON ''parks'')] \<and>
   length (mapbox_layers (layout (add_park_outlines_layer two_overlays (GeoJSON ''parks'') ''Park outlines''))) \<noteq> 1"
  by (simp add: add_park_outlines_layer_eq two_overlays_def Figure_def empty_layout_def)

text \<open>
  Claim C10, amended.  On a figure whose layout holds at most one overlay, the outline
  builder leaves exactly one overlay, the park overlay of its call, and does not append:
  after two calls the figure has two more legend traces and still exactly one overlay, that
  of the second call.
\<close>

theorem park_overlay_registered_once:
  assumes "length (mapbox_layers (layout fg)) \<le> 1"
  shows "mapbox_layers (layout (add_park_outlines_layer fg parks le)) = [park_overlay parks] \<and>
         data (add_park_outlines_layer (add_park_outlines_layer fg parks le) parks' le') =
           data fg @ [park_legend_trace le, park_legend_trace le'] \<and>
         mapbox_layers (layout (add_park_outlines_layer (add_park_outlines_layer fg parks le) parks' le')) =
           [park_overlay parks']"
proof -
  have "mapbox_layers (layout fg) = [] \<or> (\<exists>l. mapbox_layers (layout fg) = [l])"
    using assms by (cases "mapbox_layers (layout fg)") auto
  then show ?thesis by (auto simp: add_park_outlines_layer_eq)
qed

theorem park_overlay_registered_once_witness:
  "mapbox_layers (layout (add_park_outlines_layer Figure (GeoJSON ''parks'') ''Park outlines'')) =
     [park_overlay (GeoJSON ''parks'')] \<and>
   data (add_park_outlines_layer (add_park_outlines_layer Figure (GeoJSON ''parks'') ''Park outlines'')
           (GeoJSON ''gardens'') ''Gardens'') =
     [park_legend_trace ''Park outlines'', park_legend_trace ''Gardens''] \<and>
   mapbox_layers (layout (add_park_outlines_layer
       (add_park_outlines_layer Figure (GeoJSON ''parks'') ''Park outlines'') (GeoJSON ''gardens'') ''Gardens'')) =
     [park_overlay (GeoJSON ''gardens'')]"
  using park_overlay_registered_once [of Figure "GeoJSON ''parks''" "''Park outlines''" "GeoJSON ''gardens''" "''Gardens''"]
  by (simp add: Figure_def empty_layout_def)

section \<open>Properties of the Composition Orchestrator\<close>





lemma raised_county [simp]: "raised (s\<lparr>county_table := x\<rparr>) = raised s"
  by simp







text \<open>
  The run of a request with all groups given, when the three table builders raise nothing.
\<close>

lemma run_all_layers:
  assumes 1: "add_choropleth_map repr dfc Figure county ''zipcode'' ''house_quality''
                legend_choropleth = (None, dfc', f1)"
    and 3: "add_schools_layer repr (add_park_outlines_layer f1 parks ''Park outlines'') dfs
                ''LAT_CEN'' ''LONG_CEN'' ''ABB_NAME'' ''FEATUREDES'' ''Schools'' = (None, dfs', f3)"
    and 4: "plotting_houses repr dfh f3 ''price'' ''house_quality'' ''bedrooms'' ''lat'' ''long''
                legend_houses = (None, dfh', f4)"
  shows "vizualize_findings repr (Some dfh) (Some dfs) (Some dfc) (Some parks) (Some county)
           save_png lat lon style =
         \<lparr>raised = None, county_table = Some dfc', schools_table = Some dfs',
          houses_table = Some dfh', canvas = update_map_layout f4 lat lon style,
          events = Show (update_map_layout f4 lat lon style) #
            (case save_png of None \<Rightarrow> []
             | Some path \<Rightarrow> [WriteImage path (update_map_layout f4 lat lon style)])\<rparr>"
  by (cases save_png)
     (simp_all add: vizualize_findings_def Let_def unless_raised_def run_choropleth_def
        run_schools_def run_houses_def 1 3 4)

text \<open>
  Claim C4.  For a request with all optional groups given and valid tables (the columns
  of the default names are there, the prices are numeric with a maximum above their
  minimum and a range that is computed without overflow, the school descriptions are
  text), the run raises nothing and the traces of
  the figure are, in this order: the region trace, the legend trace of the park outlines,
  the school points, the house points.  The Layout Finalizer is applied to the figure
  that holds all four; that figure is shown, and then, when a path is given, written to
  the path, which is the last thing done.
\<close>

theorem full_request_layer_order:
  assumes houses: "set [''price'', ''house_quality'', ''bedrooms'', ''lat'', ''long''] \<subseteq> set (columns dfh)"
      "map_of dfh ''price'' = Some pcol"
      "pcol = FloatCol (map Fin rs) \<and> (\<forall>r \<in> set rs. is_f64 r) \<and>
         Max (set rs) - Min (set rs) \<le> f64_max \<or>
       pcol = IntCol ns \<and> rs = map rat_of_int ns \<and> Max (set ns) - Min (set ns) < 2 ^ 63"
      "rs \<noteq> []" "Min (set rs) < Max (set rs)"
    and region: "set [''zipcode'', ''house_quality''] \<subseteq> set (columns dfc)"
    and schools: "set [''LAT_CEN'', ''LONG_CEN'', ''ABB_NAME'', ''FEATUREDES''] \<subseteq> set (columns dfs)"
      "map_of dfs ''FEATUREDES'' = Some (StrCol ds)"
  shows "\<exists>ch sc ho dfc' dfs' dfh' final.
           vizualize_findings repr (Some dfh) (Some dfs) (Some dfc) (Some parks) (Some county)
               save_png lat lon style =
             \<lparr>raised = None, county_table = Some dfc', schools_table = Some dfs',
              houses_table = Some dfh', canvas = final,
              events = Show final #
                (case save_png of None \<Rightarrow> [] | Some path \<Rightarrow> [WriteImage path final])\<rparr> \<and>
           final = update_map_layout
             \<lparr>data = [Choroplethmapbox ch, park_legend_trace ''Park outlines'', Scattermapbox sc,
                      Scattermapbox ho],
              layout = empty_layout\<lparr>mapbox_layers := [park_overlay parks]\<rparr>\<rparr> lat lon style \<and>
           ch_geojson ch = county \<and> ch_name ch = legend_choropleth \<and>
           sm_name sc = ''Schools'' \<and> sm_marker sc = Some schools_marker \<and>
           sm_name ho = legend_houses \<and> map_option marker_color (sm_marker ho) = Some ''blue''"
proof -
  have hover: "''price'' \<noteq> ''hover_text''" by simp
  from add_choropleth_map_valid [OF region, of repr Figure county legend_choropleth]
  obtain dfc' ch where 1: "add_choropleth_map repr dfc Figure county ''zipcode'' ''house_quality''
      legend_choropleth = (None, dfc', add_trace Figure (Choroplethmapbox ch))"
    and ch: "ch_geojson ch = county" "ch_name ch = legend_choropleth"
    by force
  define f1 where "f1 = add_trace Figure (Choroplethmapbox ch)"
  define f2 where "f2 = add_park_outlines_layer f1 parks ''Park outlines''"
  from add_schools_layer_valid [OF schools, of repr f2 "''Schools''"]
  obtain dfs' sc where 3: "add_schools_layer repr f2 dfs ''LAT_CEN'' ''LONG_CEN'' ''ABB_NAME''
      ''FEATUREDES'' ''Schools'' = (None, dfs', add_trace f2 (Scattermapbox sc))"
    and sc: "sm_name sc = ''Schools''" "sm_marker sc = Some schools_marker"
    by force
  define f3 where "f3 = add_trace f2 (Scattermapbox sc)"
  from plotting_houses_valid [OF houses(1) hover houses(2-5), of repr f3 legend_houses]
  obtain dfh' ho where 4: "plotting_houses repr dfh f3 ''price'' ''house_quality'' ''bedrooms''
      ''lat'' ''long'' legend_houses = (None, dfh', add_trace f3 (Scattermapbox ho))"
    and ho: "sm_name ho = legend_houses" "map_option marker_color (sm_marker ho) = Some ''blue''"
    by force
  define f4 where "f4 = add_trace f3 (Scattermapbox ho)"
  have r1: "add_choropleth_map repr dfc Figure county ''zipcode'' ''house_quality''
      legend_choropleth = (None, dfc', f1)"
    using 1 by (simp only: f1_def)
  have r3: "add_schools_layer repr (add_park_outlines_layer f1 parks ''Park outlines'') dfs
      ''LAT_CEN'' ''LONG_CEN'' ''ABB_NAME'' ''FEATUREDES'' ''Schools'' = (None, dfs', f3)"
    using 3 by (simp only: f3_def f2_def)
  have r4: "plotting_houses repr dfh f3 ''price'' ''house_quality'' ''bedrooms'' ''lat'' ''long''
      legend_houses = (None, dfh', f4)"
    using 4 by (simp only: f4_def)
  have shape: "f4 = \<lparr>data = [Choroplethmapbox ch, park_legend_trace ''Park outlines'',
                           Scattermapbox sc, Scattermapbox ho],
                   layout = empty_layout\<lparr>mapbox_layers := [park_overlay parks]\<rparr>\<rparr>"
    by (simp add: f4_def f3_def f2_def f1_def add_park_outlines_layer_eq add_trace_def Figure_def
        empty_layout_def)
  have run: "vizualize_findings repr (Some dfh) (Some dfs) (Some dfc) (Some parks) (Some county)
               save_png lat lon style =
         \<lparr>raised = None, county_table = Some dfc', schools_table = Some dfs',
          houses_table = Some dfh', canvas = update_map_layout f4 lat lon style,
          events = Show (update_map_layout f4 lat lon style) #
            (case save_png of None \<Rightarrow> []
             | Some path \<Rightarrow> [WriteImage path (update_map_layout f4 lat lon style)])\<rparr>"
    by (rule run_all_layers [OF r1 r3 r4])
  show ?thesis
    using run shape ch sc ho by blast
qed


theorem full_request_layer_order_witness:
  "raised (vizualize_findings repr_whole (Some three_houses) (Some two_schools) (Some two_regions)
      (Some (GeoJSON ''parks'')) (Some (GeoJSON ''zip codes'')) (Some ''map.png'') 47 (- 122)
      ''open-street-map'') = None \<and>
   map trace_name (data (canvas (vizualize_findings repr_whole (Some three_houses) (Some two_schools)
      (Some two_regions) (Some (GeoJSON ''parks'')) (Some (GeoJSON ''zip codes'')) (Some ''map.png'')
      47 (- 122) ''open-street-map''))) =
     [legend_choropleth, ''Park outlines'', ''Schools'', legend_houses] \<and>
   events (vizualize_findings repr_whole (Some three_houses) (Some two_schools) (Some two_regions)
      (Some (GeoJSON ''parks'')) (Some (GeoJSON ''zip codes'')) (Some ''map.png'') 47 (- 122)
      ''open-street-map'') =
     [Show (canvas (vizualize_findings repr_whole (Some three_houses) (Some two_schools)
        (Some two_regions) (Some (GeoJSON ''parks'')) (Some (GeoJSON ''zip codes'')) (Some ''map.png'')
        47 (- 122) ''open-street-map'')),
      WriteImage ''map.png'' (canvas (vizualize_findings repr_whole (Some three_houses)
        (Some two_schools) (Some two_regions) (Some (GeoJSON ''parks'')) (Some (GeoJSON ''zip codes''))
        (Some ''map.png'') 47 (- 122) ''open-street-map''))]"
proof -
  have h1: "set [''price'', ''house_quality'', ''bedrooms'', ''lat'', ''long''] \<subseteq> set (columns three_houses)"
    by (simp add: three_houses_def columns_def)
  have h2: "map_of three_houses ''price'' = Some (IntCol [100, 200, 300])"
    by (simp add: three_houses_def)
  have h3: "IntCol [100, 200, 300] = FloatCol (map Fin [100, 200, 300]) \<and>
        (\<forall>r \<in> set [100, 200, 300]. is_f64 r) \<and>
        Max (set [100, 200, 300 :: rat]) - Min (set [100, 200, 300]) \<le> f64_max \<or>
      IntCol [100, 200, 300] = IntCol [100, 200, 300] \<and> [100, 200, 300] = map rat_of_int [100, 200, 300] \<and>
        Max (set [100, 200, 300 :: int]) - Min (set [100, 200, 300]) < 2 ^ 63"
    by simp
  have h4: "[100, 200, 300 :: rat] \<noteq> []" by simp
  have h5: "Min (set [100, 200, 300 :: rat]) < Max (set [100, 200, 300])" by simp
  have r: "set [''zipcode'', ''house_quality''] \<subseteq> set (columns two_regions)"
    by (simp add: two_regions_def columns_def)
  have s1: "set [''LAT_CEN'', ''LONG_CEN'', ''ABB_NAME'', ''FEATUREDES''] \<subseteq> set (columns two_schools)"
    by (simp add: two_schools_def columns_def)
  have s2: "map_of two_schools ''FEATUREDES'' = Some (StrCol [''School-Elementary'', ''school-High ''])"
    by (simp add: two_schools_def)
  from full_request_layer_order [OF h1 h2 h3 h4 h5 r s1 s2, of repr_whole "GeoJSON ''parks''"
      "GeoJSON ''zip codes''" "Some ''map.png''" 47 "- 122" "''open-street-map''"]
  obtain ch sc ho dfc' dfs' dfh' final where
    run: "vizualize_findings repr_whole (Some three_houses) (Some two_schools) (Some two_regions)
      (Some (GeoJSON ''parks'')) (Some (GeoJSON ''zip codes'')) (Some ''map.png'') 47 (- 122)
      ''open-street-map'' =
        \<lparr>raised = None, county_table = Some dfc', schools_table = Some dfs',
         houses_table = Some dfh', canvas = final,
         events = Show final # (case Some ''map.png'' of None \<Rightarrow> [] | Some path \<Rightarrow> [WriteImage path final])\<rparr>"
    and final: "final = update_map_layout
             \<lparr>data = [Choroplethmapbox ch, park_legend_trace ''Park outlines'', Scattermapbox sc,
                      Scattermapbox ho],
              layout = empty_layout\<lparr>mapbox_layers := [park_overlay (GeoJSON ''parks'')]\<rparr>\<rparr> 47 (- 122) ''open-street-map''"
    and names: "ch_name ch = legend_choropleth" "sm_name sc = ''Schools''" "sm_name ho = legend_houses"
    by blast
  show ?thesis
    unfolding run by (simp add: final names update_map_layout_def park_legend_trace_def)
qed

end
